theory Spec2Isabelle
  imports Main "HOL-Library.Sublist"
begin

section \<open>Python values\<close>

text \<open>
  The battle-card generator (\<^verbatim>\<open>bt_card.py\<close>, \<^verbatim>\<open>func.py\<close>) is a LangGraph pipeline of four
  stage functions over a shared dictionary. The stages hold values that come out of
  \<^verbatim>\<open>json.loads\<close> applied to the text of a language model, so a field annotated \<^verbatim>\<open>str\<close> can hold
  any JSON value at run time. The model keeps that: \<open>pyval\<close> is the type of the Python objects
  \<^verbatim>\<open>json.loads\<close> builds (floats left out; no operation of the program looks into a number beyond
  its truth value).

  A Python \<^verbatim>\<open>str\<close> is modelled as a \<open>string\<close> whose characters are the code points below 256.
  A \<^verbatim>\<open>dict\<close> is an association list in insertion order, read at the first entry of a key.
\<close>

datatype pyval =
    PNone
  | PBool bool
  | PInt int
  | PStr string
  | PList "pyval list"
  | PDict "(string \<times> pyval) list"

text \<open>
  Exceptions are values. The program never looks at the class of an exception it catches
  beyond \<^verbatim>\<open>JSONDecodeError\<close> against the rest, and at nothing of it but \<^verbatim>\<open>str(e)\<close>.
\<close>

datatype exn =
    JSONDecodeError string
  | AttributeError string
  | TypeError string
  | Error string

fun exn_str :: "exn \<Rightarrow> string" where
  "exn_str (JSONDecodeError m) = m"
| "exn_str (AttributeError m) = m"
| "exn_str (TypeError m) = m"
| "exn_str (Error m) = m"

fun py_truthy :: "pyval \<Rightarrow> bool" where
  "py_truthy PNone = False"
| "py_truthy (PBool b) = b"
| "py_truthy (PInt n) = (n \<noteq> 0)"
| "py_truthy (PStr s) = (s \<noteq> [])"
| "py_truthy (PList xs) = (xs \<noteq> [])"
| "py_truthy (PDict kvs) = (kvs \<noteq> [])"

fun py_type_name :: "pyval \<Rightarrow> string" where
  "py_type_name PNone = ''NoneType''"
| "py_type_name (PBool b) = ''bool''"
| "py_type_name (PInt n) = ''int''"
| "py_type_name (PStr s) = ''str''"
| "py_type_name (PList xs) = ''list''"
| "py_type_name (PDict kvs) = ''dict''"

definition quote :: string where
  "quote = [CHR 0x27]"

definition no_attribute :: "pyval \<Rightarrow> string \<Rightarrow> exn" where
  "no_attribute v a =
     AttributeError (quote @ py_type_name v @ quote @ '' object has no attribute '' @ quote @ a @ quote)"

text \<open>\<^verbatim>\<open>v.get(key, default)\<close>: a method of dictionaries only.\<close>

fun py_get :: "pyval \<Rightarrow> string \<Rightarrow> pyval \<Rightarrow> exn + pyval" where
  "py_get (PDict kvs) k d = Inr (case map_of kvs k of Some v \<Rightarrow> v | None \<Rightarrow> d)"
| "py_get v k d = Inl (no_attribute v ''get'')"

text \<open>\<^verbatim>\<open>len(v)\<close> and iteration over \<open>v\<close>, for the values that have them.\<close>

fun py_len :: "pyval \<Rightarrow> exn + nat" where
  "py_len (PStr s) = Inr (length s)"
| "py_len (PList xs) = Inr (length xs)"
| "py_len (PDict kvs) = Inr (length kvs)"
| "py_len v = Inl (TypeError (''object of type '' @ quote @ py_type_name v @ quote @ '' has no len()''))"

fun py_iter :: "pyval \<Rightarrow> exn + pyval list" where
  "py_iter (PStr s) = Inr (map (\<lambda>c. PStr [c]) s)"
| "py_iter (PList xs) = Inr xs"
| "py_iter (PDict kvs) = Inr (map (\<lambda>kv. PStr (fst kv)) kvs)"
| "py_iter v = Inl (TypeError (quote @ py_type_name v @ quote @ '' object is not iterable''))"

section \<open>Python string operations\<close>

text \<open>
  \<^verbatim>\<open>str.strip()\<close> removes the characters for which \<^verbatim>\<open>str.isspace\<close> holds: below 256 these are
  9 to 13, 28 to 32, 133 and 160.
\<close>

definition py_isspace :: "char \<Rightarrow> bool" where
  "py_isspace c = (let n = (of_char c :: nat) in
     (9 \<le> n \<and> n \<le> 13) \<or> (28 \<le> n \<and> n \<le> 32) \<or> n = 133 \<or> n = 160)"

definition py_strip :: "string \<Rightarrow> string" where
  "py_strip s = rev (dropWhile py_isspace (rev (dropWhile py_isspace s)))"

text \<open>\<^verbatim>\<open>s.rstrip('/')\<close>.\<close>

definition py_rstrip_char :: "char \<Rightarrow> string \<Rightarrow> string" where
  "py_rstrip_char c s = rev (dropWhile (\<lambda>x. x = c) (rev s))"

text \<open>\<^verbatim>\<open>s.split(sep)\<close> for a separator of one character: never the empty list.\<close>

fun py_split :: "char \<Rightarrow> string \<Rightarrow> string list" where
  "py_split sep [] = [[]]"
| "py_split sep (c # cs) =
     (if c = sep then [] # py_split sep cs
      else (case py_split sep cs of [] \<Rightarrow> [[c]] | l # ls \<Rightarrow> (c # l) # ls))"

text \<open>\<^verbatim>\<open>sep.join(xs)\<close> on a list of strings.\<close>

fun py_join :: "string \<Rightarrow> string list \<Rightarrow> string" where
  "py_join sep [] = []"
| "py_join sep [x] = x"
| "py_join sep (x # y # ys) = x @ sep @ py_join sep (y # ys)"

text \<open>
  \<^verbatim>\<open>s.splitlines()\<close>: a line ends at \<^verbatim>\<open>\n\<close>, \<^verbatim>\<open>\r\<close>, \<^verbatim>\<open>\r\n\<close>, \<^verbatim>\<open>\v\<close>, \<^verbatim>\<open>\f\<close>, \<^verbatim>\<open>\x1c\<close>, \<^verbatim>\<open>\x1d\<close>,
  \<^verbatim>\<open>\x1e\<close> or \<^verbatim>\<open>\x85\<close>; a break at the very end opens no further line.
\<close>

definition is_linebreak :: "char \<Rightarrow> bool" where
  "is_linebreak c = (let n = (of_char c :: nat) in
     (10 \<le> n \<and> n \<le> 13) \<or> (28 \<le> n \<and> n \<le> 30) \<or> n = 133)"

fun splitlines_from :: "string \<Rightarrow> string \<Rightarrow> string list" where
  "splitlines_from cur [] = (if cur = [] then [] else [cur])"
| "splitlines_from cur [c] =
     (if is_linebreak c then [cur] else [cur @ [c]])"
| "splitlines_from cur (c # d # cs) =
     (if c = CHR 0x0D \<and> d = CHR 0x0A then cur # splitlines_from [] cs
      else if is_linebreak c then cur # splitlines_from [] (d # cs)
      else splitlines_from (cur @ [c]) (d # cs))"

definition py_splitlines :: "string \<Rightarrow> string list" where
  "py_splitlines s = splitlines_from [] s"

text \<open>\<^verbatim>\<open>s.replace(' ', '_')\<close> and \<^verbatim>\<open>s.lower()\<close>.\<close>

definition py_replace_char :: "char \<Rightarrow> char \<Rightarrow> string \<Rightarrow> string" where
  "py_replace_char a b s = map (\<lambda>c. if c = a then b else c) s"

definition lower_char :: "char \<Rightarrow> char" where
  "lower_char c = (let n = (of_char c :: nat) in
     if (65 \<le> n \<and> n \<le> 90) \<or> (192 \<le> n \<and> n \<le> 222 \<and> n \<noteq> 215) then char_of (n + 32) else c)"

definition py_lower :: "string \<Rightarrow> string" where
  "py_lower s = map lower_char s"

text \<open>The decimal text of a status code, as an f-string prints an \<^verbatim>\<open>int\<close> that is not negative.\<close>

fun show_nat :: "nat \<Rightarrow> string" where
  "show_nat n =
     (if n < 10 then [char_of (48 + n)] else show_nat (n div 10) @ [char_of (48 + n mod 10)])"

declare show_nat.simps [simp del]

section \<open>Stripping a markdown fence\<close>

text \<open>
  The three extraction stages trim the answer of the language model and clean it of a
  markdown fence with the same lines (\<^verbatim>\<open>bt_card.py\<close> 62-69, 169-176, 283-290):
  \<^verbatim>\<open>
  content = response.content.strip()
  if content.startswith("```"):
      lines = content.split("\n")
      content = "\n".join(lines[1:-1]) if len(lines) > 2 else content
      if content.startswith("json"):
          content = content[4:].strip()
  \<close>
  \<open>clean_fence\<close> is the block under the comment \<^verbatim>\<open># Clean markdown code blocks\<close> (lines 64-69,
  171-176, 285-290), from the value of \<^verbatim>\<open>content\<close> before it to the value after it;
  \<open>strip_fence\<close> is the whole, from the answer to the text given to \<^verbatim>\<open>json.loads\<close>.
\<close>

definition clean_fence :: "string \<Rightarrow> string" where
  "clean_fence content =
     (if prefix ''```'' content then
        (let lines = py_split CHR ''\<newline>'' content;
             content1 = (if length lines > 2
                         then py_join ''\<newline>'' (butlast (tl lines)) else content)
         in if prefix ''json'' content1 then py_strip (drop 4 content1) else content1)
      else content)"

definition strip_fence :: "string \<Rightarrow> string" where
  "strip_fence raw = clean_fence (py_strip raw)"

section \<open>The world outside the program\<close>

text \<open>
  Search, HTTP, the language model, the embedding model, the vector store and the file system
  are outside the repository. Every call to them is an event appended to a trace, and what
  a call answers is given by an environment \<open>env\<close> as a function of the trace before the call
  and of the request: any behaviour of the outside world that is a function of what has been
  asked so far, raising included. Library functions that compute without the network
  (\<^verbatim>\<open>urljoin\<close>, \<^verbatim>\<open>json.loads\<close>, \<^verbatim>\<open>json.dump\<close>, BeautifulSoup, the text splitter) are fields of \<open>env\<close>
  that do not read the trace. \<^verbatim>\<open>print\<close>, and the constructors of the two chat models and of
  the HTTP session, are taken to return without effect on the result.

  A prompt is kept as the template that is filled and the values filled in, rather than as
  the formatted text: the answer of the model is a function of those.
\<close>

datatype starter_text = StarterUnknown | Starter pyval pyval

datatype pricing_text = PricingUnknown | PricingLines bool starter_text bool

datatype news_text = NoNews | NewsLines "pyval list"

datatype prompt =
    ResearchPrompt string string
  | PricingPrompt string
  | NewsPrompt string
  | WriterPrompt string pyval pyval string pricing_text news_text

datatype event =
    Search string
  | ModelInvoke prompt
  | WriterInvoke prompt
  | RequestsGet string
  | SessionGet string
  | EmbeddingsInit
  | VectorSearch "string list" string nat
  | WriteFile string string

type_synonym trace = "event list"

record env =
  search_invoke :: "trace \<Rightarrow> string \<Rightarrow> exn + string"
  model_invoke :: "trace \<Rightarrow> prompt \<Rightarrow> exn + string"
  model_writer_invoke :: "trace \<Rightarrow> prompt \<Rightarrow> exn + string"
  requests_get :: "trace \<Rightarrow> string \<Rightarrow> exn + nat"
  session_get :: "trace \<Rightarrow> string \<Rightarrow> exn + nat \<times> string"
  hf_embeddings :: "trace \<Rightarrow> exn option"
  similarity_search :: "trace \<Rightarrow> string list \<Rightarrow> string \<Rightarrow> nat \<Rightarrow> exn + string list"
  write_file :: "trace \<Rightarrow> string \<Rightarrow> string \<Rightarrow> exn option"
  soup_get_text :: "string \<Rightarrow> exn + string"
  create_documents :: "string \<Rightarrow> exn + string list"
  urljoin :: "string \<Rightarrow> string \<Rightarrow> exn + string"
  json_loads :: "string \<Rightarrow> string + pyval"
  json_dump :: "pyval \<Rightarrow> string"

text \<open>
  \<open>requests_get\<close> answers the status code of \<^verbatim>\<open>requests.get(url, timeout=10)\<close>; \<open>session_get\<close>
  the status code and body of the browser-like session of \<open>scrape_website\<close>; \<open>hf_embeddings\<close>
  is the constructor of the embedding model (\<open>Some\<close> the exception it raises);
  \<open>similarity_search\<close> builds the FAISS store from the chunks and searches it; \<open>write_file\<close>
  opens a file for writing and writes a text (\<open>Some\<close> the exception raised); \<open>json_loads\<close>
  answers \<open>Inl\<close> the message of the \<^verbatim>\<open>JSONDecodeError\<close> it raises.
\<close>

definition is_fetch :: "event \<Rightarrow> bool" where
  "is_fetch ev = (case ev of RequestsGet u \<Rightarrow> True | SessionGet u \<Rightarrow> True | _ \<Rightarrow> False)"

section \<open>Text acquisition and retrieval (\<^verbatim>\<open>func.py\<close>)\<close>

text \<open>
  \<^verbatim>\<open>"\n".join([line.strip() for line in text.splitlines() if line.strip()])\<close>
\<close>

definition clean_lines :: "string \<Rightarrow> string" where
  "clean_lines text =
     py_join ''\<newline>'' (map py_strip (filter (\<lambda>line. py_strip line \<noteq> []) (py_splitlines text)))"

text \<open>
  \<open>scrape_website\<close> returns a text in every case: the window \<^verbatim>\<open>[2000:7000]\<close> of the cleaned
  page on status 200, and a text that begins with \<^verbatim>\<open>Error\<close> otherwise.
\<close>

definition scrape_website :: "env \<Rightarrow> trace \<Rightarrow> string \<Rightarrow> trace \<times> string" where
  "scrape_website env tr url =
     (let tr1 = tr @ [SessionGet url] in
      case session_get env tr url of
        Inl e \<Rightarrow> (tr1, ''Error: Could not scrape '' @ url @ ''. Reason: '' @ exn_str e)
      | Inr (status_code, body) \<Rightarrow>
          if status_code = 200 then
            (case soup_get_text env body of
               Inl e \<Rightarrow> (tr1, ''Error: Could not scrape '' @ url @ ''. Reason: '' @ exn_str e)
             | Inr text \<Rightarrow> (tr1, take 5000 (drop 2000 (clean_lines text))))
          else (tr1, ''Error: Status code '' @ show_nat status_code))"

text \<open>
  \<open>retriever_text\<close> builds the embedding model first, then answers \<^verbatim>\<open>(None, None)\<close>, here
  \<open>Inr None\<close>, on an empty text or one that begins with \<^verbatim>\<open>Error\<close>, and the chunks otherwise.
\<close>

definition retriever_text :: "env \<Rightarrow> trace \<Rightarrow> string \<Rightarrow> trace \<times> (exn + string list option)" where
  "retriever_text env tr text =
     (let tr1 = tr @ [EmbeddingsInit] in
      case hf_embeddings env tr of
        Some e \<Rightarrow> (tr1, Inl e)
      | None \<Rightarrow>
          if text = [] \<or> prefix ''Error'' text then (tr1, Inr None)
          else (case create_documents env text of
                  Inl e \<Rightarrow> (tr1, Inl e)
                | Inr chunks \<Rightarrow> (tr1, Inr (Some chunks))))"

text \<open>The default query is \<^verbatim>\<open>"price $ or "\<close> followed by the rupee sign, spelt here in UTF-8.\<close>

definition default_query :: string where
  "default_query = ''price $ or '' @ [CHR 0xE2, CHR 0x82, CHR 0xB9]"

definition get_price_chunks ::
  "env \<Rightarrow> trace \<Rightarrow> string list \<Rightarrow> string \<Rightarrow> nat \<Rightarrow> trace \<times> (exn + string list)" where
  "get_price_chunks env tr chunks query top_k =
     (tr @ [VectorSearch chunks query top_k], similarity_search env tr chunks query top_k)"

section \<open>The shared state\<close>

record AgentState =
  messages :: "string list"
  company_name :: string
  home_url :: pyval
  description :: pyval
  competitors :: pyval
  pricing_info :: "pyval list"
  news_headlines :: pyval
  loop_count :: int
  final_report :: string

text \<open>
  A stage returns a dictionary with some of the keys of the state; the graph writes those
  keys into the state and leaves the others (\<^verbatim>\<open>messages\<close>, the one key with a reducer, is
  extended). \<open>update\<close> is that dictionary: \<open>None\<close> for a key that is absent.
\<close>

record update =
  upd_messages :: "string list option"
  upd_company_name :: "string option"
  upd_home_url :: "pyval option"
  upd_description :: "pyval option"
  upd_competitors :: "pyval option"
  upd_pricing_info :: "pyval list option"
  upd_news_headlines :: "pyval option"
  upd_loop_count :: "int option"
  upd_final_report :: "string option"

definition no_update :: update where
  "no_update = \<lparr>upd_messages = None, upd_company_name = None, upd_home_url = None,
     upd_description = None, upd_competitors = None, upd_pricing_info = None,
     upd_news_headlines = None, upd_loop_count = None, upd_final_report = None\<rparr>"

datatype field =
    Messages | CompanyName | HomeUrl | Description | Competitors
  | PricingInfo | NewsHeadlines | LoopCount | FinalReport

definition written :: "update \<Rightarrow> field set" where
  "written u =
     (if upd_messages u = None then {} else {Messages}) \<union>
     (if upd_company_name u = None then {} else {CompanyName}) \<union>
     (if upd_home_url u = None then {} else {HomeUrl}) \<union>
     (if upd_description u = None then {} else {Description}) \<union>
     (if upd_competitors u = None then {} else {Competitors}) \<union>
     (if upd_pricing_info u = None then {} else {PricingInfo}) \<union>
     (if upd_news_headlines u = None then {} else {NewsHeadlines}) \<union>
     (if upd_loop_count u = None then {} else {LoopCount}) \<union>
     (if upd_final_report u = None then {} else {FinalReport})"

definition merge :: "AgentState \<Rightarrow> update \<Rightarrow> AgentState" where
  "merge st u =
     \<lparr>messages = (case upd_messages u of None \<Rightarrow> messages st | Some m \<Rightarrow> messages st @ m),
      company_name = (case upd_company_name u of None \<Rightarrow> company_name st | Some v \<Rightarrow> v),
      home_url = (case upd_home_url u of None \<Rightarrow> home_url st | Some v \<Rightarrow> v),
      description = (case upd_description u of None \<Rightarrow> description st | Some v \<Rightarrow> v),
      competitors = (case upd_competitors u of None \<Rightarrow> competitors st | Some v \<Rightarrow> v),
      pricing_info = (case upd_pricing_info u of None \<Rightarrow> pricing_info st | Some v \<Rightarrow> v),
      news_headlines = (case upd_news_headlines u of None \<Rightarrow> news_headlines st | Some v \<Rightarrow> v),
      loop_count = (case upd_loop_count u of None \<Rightarrow> loop_count st | Some v \<Rightarrow> v),
      final_report = (case upd_final_report u of None \<Rightarrow> final_report st | Some v \<Rightarrow> v)\<rparr>"

section \<open>The Research stage\<close>

text \<open>
  The body of the \<^verbatim>\<open>try\<close> of \<open>research_node\<close> (\<^verbatim>\<open>bt_card.py\<close> 46-77). The three variables
  \<^verbatim>\<open>website_url\<close>, \<^verbatim>\<open>description\<close> and \<^verbatim>\<open>competitors\<close> are assigned one after the other, so the
  body answers their values at the point it stopped, with the exception that stopped it.
  A local variable that has the name of a field of the state carries a \<open>0\<close> here.
\<close>

definition research_try ::
  "env \<Rightarrow> trace \<Rightarrow> string \<Rightarrow> trace \<times> (pyval \<times> pyval \<times> pyval) \<times> exn option" where
  "research_try env tr query =
     (let website_url = PStr ''Not found'';
          description0 = PStr ''Not available'';
          competitors0 = PList [];
          q = query @ '' official website competitors'';
          tr1 = tr @ [Search q]
      in case search_invoke env tr q of
        Inl e \<Rightarrow> (tr1, (website_url, description0, competitors0), Some e)
      | Inr search_results \<Rightarrow>
          (let prompt = ResearchPrompt query search_results;
               tr2 = tr1 @ [ModelInvoke prompt]
           in case model_invoke env tr1 prompt of
             Inl e \<Rightarrow> (tr2, (website_url, description0, competitors0), Some e)
           | Inr response \<Rightarrow>
               (case json_loads env (strip_fence response) of
                  Inl m \<Rightarrow> (tr2, (website_url, description0, competitors0), Some (JSONDecodeError m))
                | Inr dat_js \<Rightarrow>
                    (case py_get dat_js ''website_url'' (PStr ''Not found'') of
                       Inl e \<Rightarrow> (tr2, (website_url, description0, competitors0), Some e)
                     | Inr website_url1 \<Rightarrow>
                         (case py_get dat_js ''description'' (PStr ''Not available'') of
                            Inl e \<Rightarrow> (tr2, (website_url1, description0, competitors0), Some e)
                          | Inr description1 \<Rightarrow>
                              (case py_get dat_js ''competitors'' (PList []) of
                                 Inl e \<Rightarrow> (tr2, (website_url1, description1, competitors0), Some e)
                               | Inr competitors1 \<Rightarrow>
                                   (tr2, (website_url1, description1, competitors1), None)))))))"

text \<open>Both handlers only print; the stage returns the three variables and the counter.\<close>

definition research_node :: "env \<Rightarrow> trace \<Rightarrow> AgentState \<Rightarrow> trace \<times> (exn + update)" where
  "research_node env tr state =
     (let query = company_name state;
          count = loop_count state
      in case research_try env tr query of
        (tr1, (website_url, description0, competitors0), caught) \<Rightarrow>
          (tr1, Inr (no_update\<lparr>upd_home_url := Some website_url,
                               upd_description := Some description0,
                               upd_competitors := Some competitors0,
                               upd_loop_count := Some (count + 1)\<rparr>)))"

section \<open>The Pricing stage\<close>

text \<open>
  \<^verbatim>\<open>urljoin(home_url.rstrip('/') + '/', path)\<close> for each path in turn; \<^verbatim>\<open>urljoin\<close> is outside
  any \<^verbatim>\<open>try\<close>.
\<close>

fun candidate_urls :: "env \<Rightarrow> string \<Rightarrow> string list \<Rightarrow> exn + string list" where
  "candidate_urls env home [] = Inr []"
| "candidate_urls env home (path # paths) =
     (case urljoin env (py_rstrip_char CHR ''/'' home @ ''/'') path of
        Inl e \<Rightarrow> Inl e
      | Inr url \<Rightarrow>
          (case candidate_urls env home paths of
             Inl e \<Rightarrow> Inl e
           | Inr urls \<Rightarrow> Inr (url # urls)))"

text \<open>
  The probe loop (\<^verbatim>\<open>bt_card.py\<close> 112-122). \<^verbatim>\<open>text\<close> is assigned at every candidate and the loop
  breaks at the first text longer than 100; after the last candidate \<^verbatim>\<open>text\<close> is what the
  last one returned. \<open>scrape_website\<close> raises nothing, so the handler of the loop is not
  reached.
\<close>

fun pricing_probe :: "env \<Rightarrow> trace \<Rightarrow> string list \<Rightarrow> string option \<Rightarrow> trace \<times> string option" where
  "pricing_probe env tr [] text = (tr, text)"
| "pricing_probe env tr (url # urls) text =
     (case scrape_website env tr url of
        (tr1, text1) \<Rightarrow>
          if text1 \<noteq> [] \<and> length text1 > 100 then (tr1, Some text1)
          else pricing_probe env tr1 urls (Some text1))"

text \<open>
  The body of the \<^verbatim>\<open>try\<close> (\<^verbatim>\<open>bt_card.py\<close> 128-180): \<open>Inr None\<close> is the early return on
  \<^verbatim>\<open>(None, None)\<close>, \<open>Inr (Some res_json)\<close> the value that is appended, \<open>Inl\<close> an exception.
\<close>

definition pricing_try :: "env \<Rightarrow> trace \<Rightarrow> string \<Rightarrow> trace \<times> (exn + pyval option)" where
  "pricing_try env tr text =
     (case retriever_text env tr text of
        (tr1, Inl e) \<Rightarrow> (tr1, Inl e)
      | (tr1, Inr None) \<Rightarrow> (tr1, Inr None)
      | (tr1, Inr (Some chunks)) \<Rightarrow>
          (case get_price_chunks env tr1 chunks default_query 3 of
             (tr2, Inl e) \<Rightarrow> (tr2, Inl e)
           | (tr2, Inr price_chunks) \<Rightarrow>
               (let combined_chunks =
                      py_join ''\<newline>\<newline>---\<newline>\<newline>'' price_chunks;
                    prompt = PricingPrompt combined_chunks;
                    tr3 = tr2 @ [ModelInvoke prompt]
                in case model_invoke env tr2 prompt of
                  Inl e \<Rightarrow> (tr3, Inl e)
                | Inr res \<Rightarrow>
                    (case json_loads env (strip_fence res) of
                       Inl m \<Rightarrow> (tr3, Inl (JSONDecodeError m))
                     | Inr res_json \<Rightarrow> (tr3, Inr (Some res_json))))))"

text \<open>Lines 128-189: the \<^verbatim>\<open>try\<close> with its handlers, which only print, and the final return.\<close>

definition pricing_extract ::
  "env \<Rightarrow> trace \<Rightarrow> pyval list \<Rightarrow> string \<Rightarrow> trace \<times> (exn + update)" where
  "pricing_extract env tr pricing_info0 text =
     (case pricing_try env tr text of
        (tr1, Inr (Some res_json)) \<Rightarrow>
          (tr1, Inr (no_update\<lparr>upd_pricing_info := Some (pricing_info0 @ [res_json])\<rparr>))
      | (tr1, Inr None) \<Rightarrow> (tr1, Inr (no_update\<lparr>upd_pricing_info := Some pricing_info0\<rparr>))
      | (tr1, Inl e) \<Rightarrow> (tr1, Inr (no_update\<lparr>upd_pricing_info := Some pricing_info0\<rparr>)))"

definition pricing_node :: "env \<Rightarrow> trace \<Rightarrow> AgentState \<Rightarrow> trace \<times> (exn + update)" where
  "pricing_node env tr state =
     (let pricing_info0 = pricing_info state;
          home_url0 = home_url state
      in if \<not> py_truthy home_url0 \<or> home_url0 = PStr ''Not found''
         then (tr, Inr (no_update\<lparr>upd_pricing_info := Some pricing_info0\<rparr>))
         else (case home_url0 of
            PStr home \<Rightarrow>
              (case candidate_urls env home [''pricing'', ''plans'', ''price''] of
                 Inl e \<Rightarrow> (tr, Inl e)
               | Inr pricing_urls \<Rightarrow>
                   (case pricing_probe env tr pricing_urls None of
                      (tr1, None) \<Rightarrow> (tr1, Inr (no_update\<lparr>upd_pricing_info := Some pricing_info0\<rparr>))
                    | (tr1, Some text) \<Rightarrow>
                        if text = []
                        then (tr1, Inr (no_update\<lparr>upd_pricing_info := Some pricing_info0\<rparr>))
                        else pricing_extract env tr1 pricing_info0 text))
          | _ \<Rightarrow> (tr, Inl (no_attribute home_url0 ''rstrip''))))"

section \<open>The News stage\<close>

text \<open>
  One candidate of the loop (\<^verbatim>\<open>bt_card.py\<close> 212-224): \<open>None\<close> when the status request raised or
  did not answer 200, so that \<^verbatim>\<open>text\<close> was not assigned; otherwise the text scraped.
\<close>

definition news_try_url :: "env \<Rightarrow> trace \<Rightarrow> string \<Rightarrow> trace \<times> string option" where
  "news_try_url env tr url =
     (let tr1 = tr @ [RequestsGet url] in
      case requests_get env tr url of
        Inl e \<Rightarrow> (tr1, None)
      | Inr status_code \<Rightarrow>
          if status_code = 200 then
            (case scrape_website env tr1 url of (tr2, text) \<Rightarrow> (tr2, Some text))
          else (tr1, None))"

fun news_probe :: "env \<Rightarrow> trace \<Rightarrow> string list \<Rightarrow> string option \<Rightarrow> trace \<times> string option" where
  "news_probe env tr [] text = (tr, text)"
| "news_probe env tr (url # urls) text =
     (case news_try_url env tr url of
        (tr1, None) \<Rightarrow> news_probe env tr1 urls text
      | (tr1, Some text1) \<Rightarrow>
          if text1 \<noteq> [] \<and> length text1 > 100 then (tr1, Some text1)
          else news_probe env tr1 urls (Some text1))"

text \<open>
  The body of the outer \<^verbatim>\<open>try\<close> (\<^verbatim>\<open>bt_card.py\<close> 230-300): \<open>Inr\<close> the list it returns, \<open>Inl\<close> an
  exception, which either handler turns into the empty list. The \<^verbatim>\<open>print\<close> before the return
  takes \<^verbatim>\<open>len\<close> of the headlines.
\<close>

definition news_try :: "env \<Rightarrow> trace \<Rightarrow> string \<Rightarrow> trace \<times> (exn + pyval)" where
  "news_try env tr text =
     (case retriever_text env tr text of
        (tr1, Inl e) \<Rightarrow> (tr1, Inl e)
      | (tr1, Inr None) \<Rightarrow> (tr1, Inr (PList []))
      | (tr1, Inr (Some chunks)) \<Rightarrow>
          (case get_price_chunks env tr1 chunks ''blog headline article title news'' 5 of
             (tr2, Inl e) \<Rightarrow> (tr2, Inl e)
           | (tr2, Inr top_chunks) \<Rightarrow>
               (let combined_chunks =
                      py_join ''\<newline>\<newline>---\<newline>\<newline>'' top_chunks;
                    prompt = NewsPrompt combined_chunks;
                    tr3 = tr2 @ [ModelInvoke prompt]
                in case model_invoke env tr2 prompt of
                  Inl e \<Rightarrow> (tr3, Inl e)
                | Inr response \<Rightarrow>
                    (case json_loads env (strip_fence response) of
                       Inl m \<Rightarrow> (tr3, Inl (JSONDecodeError m))
                     | Inr headlines_data \<Rightarrow>
                         (case py_get headlines_data ''headlines'' (PList []) of
                            Inl e \<Rightarrow> (tr3, Inl e)
                          | Inr headlines \<Rightarrow>
                              (case py_len headlines of
                                 Inl e \<Rightarrow> (tr3, Inl e)
                               | Inr n \<Rightarrow> (tr3, Inr headlines)))))))"

definition news_extract :: "env \<Rightarrow> trace \<Rightarrow> string \<Rightarrow> trace \<times> (exn + update)" where
  "news_extract env tr text =
     (case news_try env tr text of
        (tr1, Inr headlines) \<Rightarrow> (tr1, Inr (no_update\<lparr>upd_news_headlines := Some headlines\<rparr>))
      | (tr1, Inl e) \<Rightarrow> (tr1, Inr (no_update\<lparr>upd_news_headlines := Some (PList [])\<rparr>)))"

definition news_node :: "env \<Rightarrow> trace \<Rightarrow> AgentState \<Rightarrow> trace \<times> (exn + update)" where
  "news_node env tr state =
     (let home_url0 = home_url state
      in if \<not> py_truthy home_url0 \<or> home_url0 = PStr ''Not found''
         then (tr, Inr (no_update\<lparr>upd_news_headlines := Some (PList [])\<rparr>))
         else (case home_url0 of
            PStr home \<Rightarrow>
              (case candidate_urls env home [''blog'', ''news'', ''press'', ''updates''] of
                 Inl e \<Rightarrow> (tr, Inl e)
               | Inr news_urls \<Rightarrow>
                   (case news_probe env tr news_urls None of
                      (tr1, None) \<Rightarrow> (tr1, Inr (no_update\<lparr>upd_news_headlines := Some (PList [])\<rparr>))
                    | (tr1, Some text) \<Rightarrow>
                        if text = []
                        then (tr1, Inr (no_update\<lparr>upd_news_headlines := Some (PList [])\<rparr>))
                        else news_extract env tr1 text))
          | _ \<Rightarrow> (tr, Inl (no_attribute home_url0 ''rstrip''))))"

section \<open>The Writer stage\<close>

text \<open>
  \<^verbatim>\<open>", ".join(competitors) if competitors else "Unknown"\<close>: \<^verbatim>\<open>join\<close> iterates over its argument
  and accepts strings only.
\<close>

fun join_items :: "nat \<Rightarrow> pyval list \<Rightarrow> exn + string list" where
  "join_items i [] = Inr []"
| "join_items i (v # vs) =
     (case v of
        PStr s \<Rightarrow> (case join_items (i + 1) vs of Inl e \<Rightarrow> Inl e | Inr ss \<Rightarrow> Inr (s # ss))
      | _ \<Rightarrow> Inl (TypeError (''sequence item '' @ show_nat i @ '': expected str instance, ''
                    @ py_type_name v @ '' found'')))"

definition py_str_join :: "string \<Rightarrow> pyval \<Rightarrow> exn + string" where
  "py_str_join sep v =
     (case py_iter v of
        Inl e \<Rightarrow> Inl (TypeError ''can only join an iterable'')
      | Inr items \<Rightarrow>
          (case join_items 0 items of Inl e \<Rightarrow> Inl e | Inr ss \<Rightarrow> Inr (py_join sep ss)))"

definition format_competitors :: "pyval \<Rightarrow> exn + string" where
  "format_competitors competitors0 =
     (if py_truthy competitors0 then py_str_join '', '' competitors0 else Inr ''Unknown'')"

text \<open>
  Lines 333-337: \<^verbatim>\<open>starter_plan.get\<close> is called only when \<^verbatim>\<open>starter_plan\<close> is true, the price
  is asked for only when the name is true.
\<close>

definition format_starter :: "pyval \<Rightarrow> exn + starter_text" where
  "format_starter starter_plan =
     (if \<not> py_truthy starter_plan then Inr StarterUnknown
      else (case py_get starter_plan ''name'' PNone of
              Inl e \<Rightarrow> Inl e
            | Inr name \<Rightarrow>
                if \<not> py_truthy name then Inr StarterUnknown
                else (case py_get starter_plan ''price'' PNone of
                        Inl e \<Rightarrow> Inl e
                      | Inr price \<Rightarrow>
                          if py_truthy price then Inr (Starter name price)
                          else Inr StarterUnknown)))"

text \<open>Lines 328-347: only the first entry of \<^verbatim>\<open>pricing_info\<close> is formatted.\<close>

definition format_pricing :: "pyval list \<Rightarrow> exn + pricing_text" where
  "format_pricing pricing_info0 =
     (case pricing_info0 of
        [] \<Rightarrow> Inr PricingUnknown
      | pricing_data # rest \<Rightarrow>
          (case py_get pricing_data ''free_tier'' (PBool False) of
             Inl e \<Rightarrow> Inl e
           | Inr free_tier \<Rightarrow>
               (case py_get pricing_data ''starter_plan'' (PDict []) of
                  Inl e \<Rightarrow> Inl e
                | Inr starter_plan \<Rightarrow>
                    (case format_starter starter_plan of
                       Inl e \<Rightarrow> Inl e
                     | Inr starter \<Rightarrow>
                         (case py_get pricing_data ''enterprise_plan'' (PBool False) of
                            Inl e \<Rightarrow> Inl e
                          | Inr enterprise \<Rightarrow>
                              Inr (PricingLines (py_truthy free_tier) starter
                                     (py_truthy enterprise)))))))"

text \<open>
  Lines 350-354: \<^verbatim>\<open>len\<close> is taken of a true \<^verbatim>\<open>news_headlines\<close>, then every element is asked
  for its title.
\<close>

fun headline_titles :: "pyval list \<Rightarrow> exn + pyval list" where
  "headline_titles [] = Inr []"
| "headline_titles (headline # rest) =
     (case py_get headline ''title'' (PStr ''N/A'') of
        Inl e \<Rightarrow> Inl e
      | Inr title \<Rightarrow>
          (case headline_titles rest of Inl e \<Rightarrow> Inl e | Inr titles \<Rightarrow> Inr (title # titles)))"

definition format_news :: "pyval \<Rightarrow> exn + news_text" where
  "format_news news_headlines0 =
     (if \<not> py_truthy news_headlines0 then Inr NoNews
      else (case py_len news_headlines0 of
              Inl e \<Rightarrow> Inl e
            | Inr n \<Rightarrow>
                if n > 0 then
                  (case py_iter news_headlines0 of
                     Inl e \<Rightarrow> Inl e
                   | Inr headlines \<Rightarrow>
                       (case headline_titles headlines of
                          Inl e \<Rightarrow> Inl e
                        | Inr titles \<Rightarrow> Inr (NewsLines titles)))
                else Inr NoNews))"

text \<open>Lines 317-403, in the order of the source; none of them is inside a \<^verbatim>\<open>try\<close>.\<close>

definition writer_prompt :: "AgentState \<Rightarrow> exn + prompt" where
  "writer_prompt state =
     (case format_competitors (competitors state) of
        Inl e \<Rightarrow> Inl e
      | Inr competitors_text \<Rightarrow>
          (case format_pricing (pricing_info state) of
             Inl e \<Rightarrow> Inl e
           | Inr pricing_text \<Rightarrow>
               (case format_news (news_headlines state) of
                  Inl e \<Rightarrow> Inl e
                | Inr news_text \<Rightarrow>
                    Inr (WriterPrompt (company_name state) (home_url state) (description state)
                           competitors_text pricing_text news_text))))"

definition file_stem :: "string \<Rightarrow> string" where
  "file_stem name = py_lower (py_replace_char CHR '' '' CHR ''_'' name)"

definition raw_data :: "AgentState \<Rightarrow> pyval" where
  "raw_data state =
     PDict [(''company_name'', PStr (company_name state)),
            (''website'', home_url state),
            (''description'', description state),
            (''competitors'', competitors state),
            (''pricing_info'', PList (pricing_info state)),
            (''news_headlines'', news_headlines state)]"

text \<open>The body of the \<^verbatim>\<open>try\<close> (lines 407-434): \<open>Inr\<close> the battle card, \<open>Inl\<close> an exception.\<close>

definition writer_try :: "env \<Rightarrow> trace \<Rightarrow> AgentState \<Rightarrow> prompt \<Rightarrow> trace \<times> (exn + string)" where
  "writer_try env tr state prompt =
     (let tr1 = tr @ [WriterInvoke prompt] in
      case model_writer_invoke env tr prompt of
        Inl e \<Rightarrow> (tr1, Inl e)
      | Inr battle_card \<Rightarrow>
          (let filename = file_stem (company_name state) @ ''_battle_card.md'';
               tr2 = tr1 @ [WriteFile filename battle_card]
           in case write_file env tr1 filename battle_card of
             Some e \<Rightarrow> (tr2, Inl e)
           | None \<Rightarrow>
               (let json_filename = file_stem (company_name state) @ ''_data.json'';
                    json_text = json_dump env (raw_data state);
                    tr3 = tr2 @ [WriteFile json_filename json_text]
                in case write_file env tr2 json_filename json_text of
                  Some e \<Rightarrow> (tr3, Inl e)
                | None \<Rightarrow> (tr3, Inr battle_card))))"

definition error_banner :: "exn \<Rightarrow> string" where
  "error_banner e = ''# Error Generating Battle Card\<newline>\<newline>Error: '' @ exn_str e"

definition writer_node :: "env \<Rightarrow> trace \<Rightarrow> AgentState \<Rightarrow> trace \<times> (exn + update)" where
  "writer_node env tr state =
     (case writer_prompt state of
        Inl e \<Rightarrow> (tr, Inl e)
      | Inr prompt \<Rightarrow>
          (case writer_try env tr state prompt of
             (tr1, Inr battle_card) \<Rightarrow>
               (tr1, Inr (no_update\<lparr>upd_final_report := Some battle_card,
                                    upd_loop_count := Some (loop_count state + 1)\<rparr>))
           | (tr1, Inl e) \<Rightarrow>
               (tr1, Inr (no_update\<lparr>upd_final_report := Some (error_banner e),
                                    upd_loop_count := Some (loop_count state + 1)\<rparr>))))"

section \<open>The graph\<close>

text \<open>
  \<^verbatim>\<open>detective\<close>, \<^verbatim>\<open>pricing\<close>, \<^verbatim>\<open>news\<close>, \<^verbatim>\<open>editor\<close>, in this order; an exception of a stage leaves the
  graph.
\<close>

definition graph_invoke :: "env \<Rightarrow> trace \<Rightarrow> AgentState \<Rightarrow> trace \<times> (exn + AgentState)" where
  "graph_invoke env tr state =
     (case research_node env tr state of
        (tr1, Inl e) \<Rightarrow> (tr1, Inl e)
      | (tr1, Inr u1) \<Rightarrow>
          (let state1 = merge state u1 in
           case pricing_node env tr1 state1 of
             (tr2, Inl e) \<Rightarrow> (tr2, Inl e)
           | (tr2, Inr u2) \<Rightarrow>
               (let state2 = merge state1 u2 in
                case news_node env tr2 state2 of
                  (tr3, Inl e) \<Rightarrow> (tr3, Inl e)
                | (tr3, Inr u3) \<Rightarrow>
                    (let state3 = merge state2 u3 in
                     case writer_node env tr3 state3 of
                       (tr4, Inl e) \<Rightarrow> (tr4, Inl e)
                     | (tr4, Inr u4) \<Rightarrow> (tr4, Inr (merge state3 u4))))))"

definition initial_state :: "string \<Rightarrow> AgentState" where
  "initial_state name =
     \<lparr>messages = [], company_name = name, home_url = PStr [], description = PStr [],
      competitors = PList [], pricing_info = [], news_headlines = PList [], loop_count = 0,
      final_report = []\<rparr>"

definition run_battle_card_generator :: "env \<Rightarrow> trace \<Rightarrow> string \<Rightarrow> trace \<times> AgentState option" where
  "run_battle_card_generator env tr name =
     (case graph_invoke env tr (initial_state name) of
        (tr1, Inr result) \<Rightarrow> (tr1, Some result)
      | (tr1, Inl e) \<Rightarrow> (tr1, None))"

section \<open>The JSON text of a value\<close>

text \<open>
  The Writer serialises with \<^verbatim>\<open>json.dump(raw_data, f, indent=2, ensure_ascii=False)\<close>. This
  section models that encoder and the decoder \<^verbatim>\<open>json.loads\<close> of the Python library on the
  values of \<open>pyval\<close>, after \<^verbatim>\<open>json/encoder.py\<close> (\<^verbatim>\<open>py_encode_basestring\<close>, \<^verbatim>\<open>_make_iterencode\<close>),
  \<^verbatim>\<open>json/decoder.py\<close> (\<^verbatim>\<open>py_scanstring\<close>, \<^verbatim>\<open>JSONArray\<close>, \<^verbatim>\<open>JSONObject\<close>) and \<^verbatim>\<open>json/scanner.py\<close>
  (\<^verbatim>\<open>_scan_once\<close>). The encoder escapes the quote, the backslash and the characters below 32
  and writes every other character as it is; with an indent, items are separated by a comma
  and a new line, a key from its value by a colon and a blank, and an empty list or
  dictionary is written without a line break.
\<close>

definition backslash :: char where
  "backslash = CHR 0x5C"

definition dquote :: char where
  "dquote = CHR 0x22"

definition hex_digit :: "nat \<Rightarrow> char" where
  "hex_digit d = (if d < 10 then char_of (48 + d) else char_of (87 + d))"

definition escape_char :: "char \<Rightarrow> string" where
  "escape_char c =
     (if c = dquote then [backslash, dquote]
      else if c = backslash then [backslash, backslash]
      else if c = CHR 0x0A then [backslash, CHR ''n'']
      else if c = CHR 0x0D then [backslash, CHR ''r'']
      else if c = CHR 0x09 then [backslash, CHR ''t'']
      else if c = CHR 0x08 then [backslash, CHR ''b'']
      else if c = CHR 0x0C then [backslash, CHR ''f'']
      else if (of_char c :: nat) < 32
        then [backslash, CHR ''u'', CHR ''0'', CHR ''0'',
              hex_digit (of_char c div 16), hex_digit (of_char c mod 16)]
      else [c])"

definition encode_basestring :: "string \<Rightarrow> string" where
  "encode_basestring s = dquote # concat (map escape_char s) @ [dquote]"

definition show_int :: "int \<Rightarrow> string" where
  "show_int i = (if i < 0 then CHR ''-'' # show_nat (nat (- i)) else show_nat (nat i))"

definition newline_indent :: "nat \<Rightarrow> string" where
  "newline_indent level = CHR 0x0A # replicate (2 * level) CHR '' ''"

fun encode :: "nat \<Rightarrow> pyval \<Rightarrow> string" where
  "encode level PNone = ''null''"
| "encode level (PBool b) = (if b then ''true'' else ''false'')"
| "encode level (PInt i) = show_int i"
| "encode level (PStr s) = encode_basestring s"
| "encode level (PList xs) =
     (if xs = [] then ''[]''
      else ''['' @ newline_indent (level + 1)
           @ py_join ('','' @ newline_indent (level + 1)) (map (encode (level + 1)) xs)
           @ newline_indent level @ '']'')"
| "encode level (PDict kvs) =
     (if kvs = [] then ''{}''
      else ''{'' @ newline_indent (level + 1)
           @ py_join ('','' @ newline_indent (level + 1))
               (map (\<lambda>kv. encode_basestring (fst kv) @ '': '' @ encode (level + 1) (snd kv)) kvs)
           @ newline_indent level @ ''}'')"

definition py_json_dump :: "pyval \<Rightarrow> string" where
  "py_json_dump v = encode 0 v"

text \<open>
  The decoder. White space is blank, tab, line feed and carriage return. A string ends at
  the first quote that is not escaped; a character below 32 inside it is refused; the
  escapes are the eight of one letter and \<^verbatim>\<open>\uXXXX\<close> with four hexadecimal digits. A number
  is an optional minus and either \<^verbatim>\<open>0\<close> or digits that do not begin with \<^verbatim>\<open>0\<close>. The decoder
  answers \<open>None\<close> where \<^verbatim>\<open>json.loads\<close> raises, and also where it would build a value outside
  \<open>pyval\<close>: a float (a number with a fraction or an exponent, \<^verbatim>\<open>NaN\<close>, \<^verbatim>\<open>Infinity\<close>) or a
  character above 255.
\<close>

definition is_json_ws :: "char \<Rightarrow> bool" where
  "is_json_ws c = (c = CHR '' '' \<or> c = CHR 0x09 \<or> c = CHR 0x0A \<or> c = CHR 0x0D)"

definition skip_ws :: "string \<Rightarrow> string" where
  "skip_ws s = dropWhile is_json_ws s"

definition hex_val :: "char \<Rightarrow> nat option" where
  "hex_val c = (let n = (of_char c :: nat) in
     if 48 \<le> n \<and> n \<le> 57 then Some (n - 48)
     else if 97 \<le> n \<and> n \<le> 102 then Some (n - 87)
     else if 65 \<le> n \<and> n \<le> 70 then Some (n - 55)
     else None)"

definition hex4 :: "char \<Rightarrow> char \<Rightarrow> char \<Rightarrow> char \<Rightarrow> nat option" where
  "hex4 a b c d =
     (case (hex_val a, hex_val b, hex_val c, hex_val d) of
        (Some w, Some x, Some y, Some z) \<Rightarrow> Some (((w * 16 + x) * 16 + y) * 16 + z)
      | _ \<Rightarrow> None)"

definition unescape :: "char \<Rightarrow> char option" where
  "unescape e =
     (if e = dquote then Some dquote
      else if e = backslash then Some backslash
      else if e = CHR ''/'' then Some CHR ''/''
      else if e = CHR ''b'' then Some (CHR 0x08)
      else if e = CHR ''f'' then Some (CHR 0x0C)
      else if e = CHR ''n'' then Some (CHR 0x0A)
      else if e = CHR ''r'' then Some (CHR 0x0D)
      else if e = CHR ''t'' then Some (CHR 0x09)
      else None)"

text \<open>\<open>scanstring\<close> reads the text after the opening quote: the string and what follows it.\<close>

fun scanstring :: "string \<Rightarrow> (string \<times> string) option" where
  "scanstring [] = None"
| "scanstring (c # cs) =
     (if c = dquote then Some ([], cs)
      else if c = backslash then
        (case cs of
           [] \<Rightarrow> None
         | e # rest \<Rightarrow>
             if e = CHR ''u'' then
               (case rest of
                  h1 # h2 # h3 # h4 # rest1 \<Rightarrow>
                    (case hex4 h1 h2 h3 h4 of
                       None \<Rightarrow> None
                     | Some n \<Rightarrow>
                         if n < 256 then
                           (case scanstring rest1 of
                              None \<Rightarrow> None
                            | Some (s, r) \<Rightarrow> Some (char_of n # s, r))
                         else None)
                | _ \<Rightarrow> None)
             else
               (case unescape e of
                  None \<Rightarrow> None
                | Some ch \<Rightarrow>
                    (case scanstring rest of
                       None \<Rightarrow> None
                     | Some (s, r) \<Rightarrow> Some (ch # s, r))))
      else if (of_char c :: nat) < 32 then None
      else (case scanstring cs of
              None \<Rightarrow> None
            | Some (s, r) \<Rightarrow> Some (c # s, r)))"

definition is_digit :: "char \<Rightarrow> bool" where
  "is_digit c = (48 \<le> (of_char c :: nat) \<and> (of_char c :: nat) \<le> 57)"

definition digits_value :: "string \<Rightarrow> nat" where
  "digits_value ds = foldl (\<lambda>n c. 10 * n + (of_char c - 48)) 0 ds"

definition starts_fraction :: "string \<Rightarrow> bool" where
  "starts_fraction r =
     (case r of [] \<Rightarrow> False | c # cs \<Rightarrow> c = CHR ''.'' \<or> c = CHR ''e'' \<or> c = CHR ''E'')"

definition scan_digits :: "string \<Rightarrow> (nat \<times> string) option" where
  "scan_digits s =
     (case s of
        [] \<Rightarrow> None
      | d # r \<Rightarrow>
          if d = CHR ''0'' then (if starts_fraction r then None else Some (0, r))
          else if is_digit d then
            (let r1 = dropWhile is_digit s in
             if starts_fraction r1 then None
             else Some (digits_value (takeWhile is_digit s), r1))
          else None)"

definition scan_number :: "string \<Rightarrow> (pyval \<times> string) option" where
  "scan_number s =
     (case s of
        [] \<Rightarrow> None
      | c # cs \<Rightarrow>
          if c = CHR ''-'' then
            (case scan_digits cs of None \<Rightarrow> None | Some (n, r) \<Rightarrow> Some (PInt (- int n), r))
          else
            (case scan_digits s of None \<Rightarrow> None | Some (n, r) \<Rightarrow> Some (PInt (int n), r)))"

text \<open>
  \<^verbatim>\<open>dict(pairs)\<close>: a key met again keeps its place and takes the later value.
\<close>

fun dict_set :: "(string \<times> pyval) list \<Rightarrow> string \<Rightarrow> pyval \<Rightarrow> (string \<times> pyval) list" where
  "dict_set [] k v = [(k, v)]"
| "dict_set ((k1, v1) # kvs) k v =
     (if k1 = k then (k1, v) # kvs else (k1, v1) # dict_set kvs k v)"

definition dict_of_pairs :: "(string \<times> pyval) list \<Rightarrow> (string \<times> pyval) list" where
  "dict_of_pairs pairs = foldl (\<lambda>d kv. dict_set d (fst kv) (snd kv)) [] pairs"

text \<open>
  The scanner of values, of the items of a list after its bracket, and of the members of
  a dictionary after its brace. The first argument bounds the number of nested calls; the
  decoder gives the length of the text, and every call reads at least one character.
\<close>

fun scan_once :: "nat \<Rightarrow> string \<Rightarrow> (pyval \<times> string) option"
  and scan_items :: "nat \<Rightarrow> string \<Rightarrow> (pyval list \<times> string) option"
  and scan_members :: "nat \<Rightarrow> string \<Rightarrow> ((string \<times> pyval) list \<times> string) option" where
  "scan_once 0 s = None"
| "scan_once (Suc n) s =
     (case s of
        [] \<Rightarrow> None
      | c # cs \<Rightarrow>
          if c = dquote then
            (case scanstring cs of None \<Rightarrow> None | Some (str, r) \<Rightarrow> Some (PStr str, r))
          else if c = CHR ''{'' then
            (case skip_ws cs of
               [] \<Rightarrow> None
             | d # r \<Rightarrow>
                 if d = CHR ''}'' then Some (PDict [], r)
                 else (case scan_members n (d # r) of
                         None \<Rightarrow> None
                       | Some (pairs, r1) \<Rightarrow> Some (PDict (dict_of_pairs pairs), r1)))
          else if c = CHR ''['' then
            (case skip_ws cs of
               [] \<Rightarrow> None
             | d # r \<Rightarrow>
                 if d = CHR '']'' then Some (PList [], r)
                 else (case scan_items n (d # r) of
                         None \<Rightarrow> None
                       | Some (items, r1) \<Rightarrow> Some (PList items, r1)))
          else if prefix ''null'' s then Some (PNone, drop 4 s)
          else if prefix ''true'' s then Some (PBool True, drop 4 s)
          else if prefix ''false'' s then Some (PBool False, drop 5 s)
          else scan_number s)"
| "scan_items 0 s = None"
| "scan_items (Suc n) s =
     (case scan_once n s of
        None \<Rightarrow> None
      | Some (v, r) \<Rightarrow>
          (case skip_ws r of
             [] \<Rightarrow> None
           | d # r1 \<Rightarrow>
               if d = CHR '']'' then Some ([v], r1)
               else if d = CHR '','' then
                 (case scan_items n (skip_ws r1) of
                    None \<Rightarrow> None
                  | Some (vs, r2) \<Rightarrow> Some (v # vs, r2))
               else None))"
| "scan_members 0 s = None"
| "scan_members (Suc n) s =
     (case s of
        [] \<Rightarrow> None
      | q # cs \<Rightarrow>
          if q = dquote then
            (case scanstring cs of
               None \<Rightarrow> None
             | Some (key, r) \<Rightarrow>
                 (case skip_ws r of
                    [] \<Rightarrow> None
                  | d # r1 \<Rightarrow>
                      if d = CHR '':'' then
                        (case scan_once n (skip_ws r1) of
                           None \<Rightarrow> None
                         | Some (v, r2) \<Rightarrow>
                             (case skip_ws r2 of
                                [] \<Rightarrow> None
                              | e # r3 \<Rightarrow>
                                  if e = CHR ''}'' then Some ([(key, v)], r3)
                                  else if e = CHR '','' then
                                    (case scan_members n (skip_ws r3) of
                                       None \<Rightarrow> None
                                     | Some (pairs, r4) \<Rightarrow> Some ((key, v) # pairs, r4))
                                  else None))
                      else None))
          else None)"

definition py_json_loads :: "string \<Rightarrow> pyval option" where
  "py_json_loads s =
     (case scan_once (length s) (skip_ws s) of
        None \<Rightarrow> None
      | Some (v, r) \<Rightarrow> if skip_ws r = [] then Some v else None)"

text \<open>
  A value is well formed when no dictionary in it holds a key twice, as is the case of every
  Python \<^verbatim>\<open>dict\<close>.
\<close>

primrec distinct_keys :: "pyval \<Rightarrow> bool" where
  "distinct_keys PNone = True"
| "distinct_keys (PBool b) = True"
| "distinct_keys (PInt i) = True"
| "distinct_keys (PStr s) = True"
| "distinct_keys (PList xs) = list_all id (map distinct_keys xs)"
| "distinct_keys (PDict kvs) =
     (distinct (map fst kvs) \<and> list_all snd (map (map_prod id distinct_keys) kvs))"

text \<open>
  In the text of the encoder a value is followed by the end of the text, by a comma or by
  a line feed.
\<close>

definition follows_value :: "string \<Rightarrow> bool" where
  "follows_value rest = (rest = [] \<or> hd rest = CHR '','' \<or> hd rest = CHR 0x0A)"

section \<open>A run on a concrete company\<close>

text \<open>
  The company Acme, with an outside world in which every call succeeds: the search finds the
  site, the model answers the three extraction prompts with the JSON below (the first one
  inside a fence), every page answers 200 with a text of 2200 characters. The theorems use it,
  and variants of it in which a call fails, to run the stages on concrete inputs.
\<close>

definition research_answer :: string where
  \<open>research_answer =
     ''```json\<newline>{"website_url": "https://acme.test", "description": "Acme sells anvils.", "competitors": ["Apex", "Zenith"]}\<newline>```''\<close>

definition research_body :: string where
  \<open>research_body =
     ''{"website_url": "https://acme.test", "description": "Acme sells anvils.", "competitors": ["Apex", "Zenith"]}''\<close>

definition research_json :: pyval where
  "research_json =
     PDict [(''website_url'', PStr ''https://acme.test''),
            (''description'', PStr ''Acme sells anvils.''),
            (''competitors'', PList [PStr ''Apex'', PStr ''Zenith''])]"

definition pricing_answer :: string where
  \<open>pricing_answer =
     ''{"free_tier": true, "starter_plan": {"name": "Pro", "price": "$9/month"}, "enterprise_plan": true}''\<close>

definition pricing_json :: pyval where
  "pricing_json =
     PDict [(''free_tier'', PBool True),
            (''starter_plan'', PDict [(''name'', PStr ''Pro''), (''price'', PStr ''$9/month'')]),
            (''enterprise_plan'', PBool True)]"

definition news_answer :: string where
  \<open>news_answer = ''{"headlines": [{"title": "Acme ships", "position": 1}]}''\<close>

definition news_json :: pyval where
  "news_json =
     PDict [(''headlines'',
             PList [PDict [(''title'', PStr ''Acme ships''), (''position'', PInt 1)]])]"

definition page_text :: "nat \<Rightarrow> string" where
  "page_text n = replicate n CHR ''a''"

definition acme_researched :: AgentState where
  "acme_researched =
     \<lparr>messages = [], company_name = ''Acme'', home_url = PStr ''https://acme.test'',
      description = PStr ''Acme sells anvils.'',
      competitors = PList [PStr ''Apex'', PStr ''Zenith''], pricing_info = [],
      news_headlines = PList [], loop_count = 1, final_report = []\<rparr>"

definition acme_priced :: AgentState where
  "acme_priced = acme_researched\<lparr>pricing_info := [pricing_json]\<rparr>"

definition acme_newsed :: AgentState where
  "acme_newsed =
     acme_priced\<lparr>news_headlines :=
       PList [PDict [(''title'', PStr ''Acme ships''), (''position'', PInt 1)]]\<rparr>"

definition acme_final :: AgentState where
  "acme_final = acme_newsed\<lparr>loop_count := 2, final_report := ''# Battle Card: Acme''\<rparr>"

text \<open>The sidecar of the run, as \<^verbatim>\<open>json.dump\<close> with an indent of two writes it.\<close>

definition sidecar_text :: string where
  \<open>sidecar_text =
     ''{\<newline>  "company_name": "Acme",\<newline>  "website": "https://acme.test",\<newline>  "description": "Acme sells anvils.",\<newline>  "competitors": [\<newline>    "Apex",\<newline>    "Zenith"\<newline>  ],\<newline>  "pricing_info": [\<newline>    {\<newline>      "free_tier": true,\<newline>      "starter_plan": {\<newline>        "name": "Pro",\<newline>        "price": "$9/month"\<newline>      },\<newline>      "enterprise_plan": true\<newline>    }\<newline>  ],\<newline>  "news_headlines": [\<newline>    {\<newline>      "title": "Acme ships",\<newline>      "position": 1\<newline>    }\<newline>  ]\<newline>}''\<close>

definition env_ok :: env where
  "env_ok =
     \<lparr>search_invoke = (\<lambda>tr q. Inr ''Acme - https://acme.test''),
      model_invoke = (\<lambda>tr p. case p of
          ResearchPrompt q r \<Rightarrow> Inr research_answer
        | PricingPrompt c \<Rightarrow> Inr pricing_answer
        | NewsPrompt c \<Rightarrow> Inr news_answer
        | WriterPrompt c h d cs ps ns \<Rightarrow> Inl (Error ''unexpected prompt'')),
      model_writer_invoke = (\<lambda>tr p. Inr ''# Battle Card: Acme''),
      requests_get = (\<lambda>tr url. Inr 200),
      session_get = (\<lambda>tr url. Inr (200, ''<html></html>'')),
      hf_embeddings = (\<lambda>tr. None),
      similarity_search = (\<lambda>tr chunks query top_k. Inr (take top_k chunks)),
      write_file = (\<lambda>tr name text. None),
      soup_get_text = (\<lambda>body. Inr (page_text 2200)),
      create_documents = (\<lambda>text. Inr [text]),
      urljoin = (\<lambda>base path. Inr (base @ path)),
      json_loads = (\<lambda>s. if s = research_body then Inr research_json
                         else if s = pricing_answer then Inr pricing_json
                         else if s = news_answer then Inr news_json
                         else Inl ''Expecting value: line 1 column 1 (char 0)''),
      json_dump = py_json_dump\<rparr>"

definition research_events :: trace where
  "research_events =
     [Search ''Acme official website competitors'',
      ModelInvoke (ResearchPrompt ''Acme'' ''Acme - https://acme.test'')]"

definition pricing_events :: trace where
  "pricing_events =
     [SessionGet ''https://acme.test/pricing'', EmbeddingsInit,
      VectorSearch [page_text 200] default_query 3,
      ModelInvoke (PricingPrompt (page_text 200))]"

definition news_events :: trace where
  "news_events =
     [RequestsGet ''https://acme.test/blog'', SessionGet ''https://acme.test/blog'',
      EmbeddingsInit,
      VectorSearch [page_text 200] ''blog headline article title news'' 5,
      ModelInvoke (NewsPrompt (page_text 200))]"

definition acme_prompt :: prompt where
  "acme_prompt =
     WriterPrompt ''Acme'' (PStr ''https://acme.test'') (PStr ''Acme sells anvils.'')
       ''Apex, Zenith'' (PricingLines True (Starter (PStr ''Pro'') (PStr ''$9/month'')) True)
       (NewsLines [PStr ''Acme ships''])"

definition writer_events :: trace where
  "writer_events =
     [WriterInvoke acme_prompt,
      WriteFile ''acme_battle_card.md'' ''# Battle Card: Acme'',
      WriteFile ''acme_data.json'' sidecar_text]"

definition acme_research_update :: update where
  "acme_research_update =
     no_update\<lparr>upd_home_url := Some (PStr ''https://acme.test''),
                  upd_description := Some (PStr ''Acme sells anvils.''),
                  upd_competitors := Some (PList [PStr ''Apex'', PStr ''Zenith'']),
                  upd_loop_count := Some 1\<rparr>"

definition acme_pricing_update :: update where
  "acme_pricing_update = no_update\<lparr>upd_pricing_info := Some [pricing_json]\<rparr>"

definition acme_news_update :: update where
  "acme_news_update =
     no_update\<lparr>upd_news_headlines :=
       Some (PList [PDict [(''title'', PStr ''Acme ships''), (''position'', PInt 1)]])\<rparr>"

definition acme_writer_update :: update where
  "acme_writer_update =
     no_update\<lparr>upd_final_report := Some ''# Battle Card: Acme'', upd_loop_count := Some 2\<rparr>"

text \<open>Variants of the outside world in which one call fails.\<close>

definition env_search_down :: env where
  "env_search_down = env_ok\<lparr>search_invoke := (\<lambda>tr q. Inl (Error ''timed out''))\<rparr>"

definition env_model_down :: env where
  "env_model_down = env_ok\<lparr>model_invoke := (\<lambda>tr p. Inl (Error ''rate limit reached''))\<rparr>"

definition env_not_json :: env where
  "env_not_json = env_ok\<lparr>model_invoke := (\<lambda>tr p. Inr ''I could not find that.'')\<rparr>"

definition env_json_list :: env where
  "env_json_list = env_ok\<lparr>model_invoke := (\<lambda>tr p. Inr ''[]''),
                          json_loads := (\<lambda>s. Inr (PList []))\<rparr>"

definition research_defaults :: update where
  "research_defaults =
     no_update\<lparr>upd_home_url := Some (PStr ''Not found''),
                  upd_description := Some (PStr ''Not available''),
                  upd_competitors := Some (PList []), upd_loop_count := Some 1\<rparr>"

text \<open>
  Variants for the probe: the first pricing and blog pages answer 404; the same with pages
  whose window is exactly 100 characters long; the first pricing page times out with a long
  message.
\<close>

definition env_second :: env where
  "env_second =
     env_ok\<lparr>session_get := (\<lambda>tr url.
        if url = ''https://acme.test/pricing'' \<or> url = ''https://acme.test/blog''
        then Inr (404, []) else Inr (200, ''<html></html>''))\<rparr>"

definition env_hundred :: env where
  "env_hundred = env_second\<lparr>soup_get_text := (\<lambda>body. Inr (page_text 2100))\<rparr>"

definition timeout_message :: string where
  "timeout_message =
     ''HTTPSConnectionPool(host=acme.test, port=443): Max retries exceeded with url: /pricing''"

definition env_long_error :: env where
  "env_long_error =
     env_ok\<lparr>session_get := (\<lambda>tr url.
        if url = ''https://acme.test/pricing'' then Inl (Error timeout_message)
        else Inr (200, ''<html></html>''))\<rparr>"

definition long_error_text :: string where
  "long_error_text =
     ''Error: Could not scrape https://acme.test/pricing. Reason: '' @ timeout_message"

text \<open>
  Variants for the Writer: a state in which the model listed the competitors as objects, a
  writer model that answers the empty text or raises, and a disk on which every file, or the
  sidecar alone, cannot be written.
\<close>

definition acme_competitor_objects :: AgentState where
  "acme_competitor_objects =
     acme_newsed\<lparr>competitors := PList [PDict [(''name'', PStr ''Apex'')]]\<rparr>"

definition env_empty_card :: env where
  "env_empty_card = env_ok\<lparr>model_writer_invoke := (\<lambda>tr p. Inr [])\<rparr>"

definition env_writer_down :: env where
  "env_writer_down =
     env_ok\<lparr>model_writer_invoke := (\<lambda>tr p. Inl (Error ''rate limit reached''))\<rparr>"

definition env_disk_full :: env where
  "env_disk_full =
     env_ok\<lparr>write_file := (\<lambda>tr name text. Some (Error ''No space left on device''))\<rparr>"

definition env_sidecar_fails :: env where
  "env_sidecar_fails =
     env_ok\<lparr>write_file := (\<lambda>tr name text.
        if name = ''acme_data.json'' then Some (Error ''No space left on device'') else None)\<rparr>"

section \<open>Properties of the string operations\<close>

lemma dropWhile_id: "xs = [] \<or> \<not> P (hd xs) \<Longrightarrow> dropWhile P xs = xs"
  by (cases xs) auto

lemma py_strip_fixed:
  assumes "t = [] \<or> (\<not> py_isspace (hd t) \<and> \<not> py_isspace (last t))"
  shows "py_strip t = t"
proof (cases "t = []")
  case True
  then show ?thesis by (simp add: py_strip_def)
next
  case False
  with assms have h: "\<not> py_isspace (hd t)" and l: "\<not> py_isspace (last t)" by auto
  have 1: "dropWhile py_isspace t = t" using h by (simp add: dropWhile_id)
  have "hd (rev t) = last t" using False by (simp add: hd_rev)
  then have 2: "dropWhile py_isspace (rev t) = rev t" using l by (simp add: dropWhile_id)
  show ?thesis by (simp add: py_strip_def 1 2)
qed

lemma py_strip_trimmed:
  "py_strip s = [] \<or> (\<not> py_isspace (hd (py_strip s)) \<and> \<not> py_isspace (last (py_strip s)))"
proof (cases "py_strip s = []")
  case True
  then show ?thesis by simp
next
  case False
  define d where "d = dropWhile py_isspace s"
  define e where "e = dropWhile py_isspace (rev d)"
  have t: "py_strip s = rev e" by (simp add: py_strip_def d_def e_def)
  with False have e: "e \<noteq> []" by simp
  then have he: "\<not> py_isspace (hd e)" unfolding e_def by (metis hd_dropWhile)
  from e have d: "d \<noteq> []" unfolding e_def by auto
  then have hd: "\<not> py_isspace (hd d)" unfolding d_def by (metis hd_dropWhile)
  obtain pre where "rev d = pre @ e" unfolding e_def by (metis takeWhile_dropWhile_id)
  then have "last (rev d) = last e" using e by simp
  then have "last e = hd d" using d by (simp add: last_rev)
  then have "hd (rev e) = hd d" using e by (simp add: hd_rev)
  moreover have "last (rev e) = hd e" using e by (simp add: last_rev)
  ultimately show ?thesis using t he hd by simp
qed

lemma py_strip_idem: "py_strip (py_strip s) = py_strip s"
  using py_strip_trimmed py_strip_fixed by blast

lemma py_strip_sublist: "sublist (py_strip s) s"
proof -
  have a: "sublist (dropWhile py_isspace s) s"
    by (metis suffix_dropWhile suffix_imp_sublist)
  have "sublist (dropWhile py_isspace (rev (dropWhile py_isspace s))) (rev (dropWhile py_isspace s))"
    by (metis suffix_dropWhile suffix_imp_sublist)
  then have "sublist (py_strip s) (dropWhile py_isspace s)"
    unfolding py_strip_def by (metis sublist_rev_left)
  with a show ?thesis using sublist_order.order_trans by blast
qed

lemma py_split_nonempty: "py_split sep s \<noteq> []"
  by (induction s) (auto split: list.splits)

lemma py_split_append: "py_split sep (a @ sep # b) = py_split sep a @ py_split sep b"
proof (induction a)
  case Nil
  then show ?case by simp
next
  case (Cons c a)
  then show ?case using py_split_nonempty[of sep a] by (auto split: list.splits)
qed

lemma py_split_no_sep: "sep \<notin> set a \<Longrightarrow> py_split sep a = [a]"
  by (induction a) auto

lemma py_join_Cons: "py_join sep ((c # l) # ls) = c # py_join sep (l # ls)"
  by (cases ls) auto

lemma py_join_split: "py_join [sep] (py_split sep s) = s"
proof (induction s)
  case Nil
  then show ?case by simp
next
  case (Cons c s)
  show ?case
  proof (cases "c = sep")
    case True
    then show ?thesis using Cons py_split_nonempty[of sep s]
      by (cases "py_split sep s") auto
  next
    case False
    then show ?thesis using Cons py_split_nonempty[of sep s]
      by (cases "py_split sep s") (auto simp: py_join_Cons)
  qed
qed

lemma clean_fence_unfenced: "\<not> prefix ''```'' x \<Longrightarrow> clean_fence x = x"
  by (simp add: clean_fence_def)

lemma clean_fence_short:
  assumes "prefix ''```'' x" and "length (py_split CHR ''\<newline>'' x) \<le> 2"
  shows "clean_fence x = x"
proof -
  obtain t where "x = ''```'' @ t" using assms(1) by (auto simp: prefix_def)
  then have "\<not> prefix ''json'' x" by simp
  then show ?thesis using assms by (simp add: clean_fence_def Let_def)
qed

lemma clean_fence_fenced:
  assumes c: "x = ''```'' @ info @ CHR ''\<newline>'' # payload @ CHR ''\<newline>'' # closing"
    and info: "CHR ''\<newline>'' \<notin> set info"
    and closing: "CHR ''\<newline>'' \<notin> set closing"
  shows "clean_fence x = (if prefix ''json'' payload then py_strip (drop 4 payload) else payload)"
proof -
  have "x = (''```'' @ info) @ CHR ''\<newline>'' # (payload @ CHR ''\<newline>'' # closing)"
    using c by simp
  then have "py_split CHR ''\<newline>'' x =
      py_split CHR ''\<newline>'' (''```'' @ info) @ py_split CHR ''\<newline>'' payload
        @ py_split CHR ''\<newline>'' closing"
    using py_split_append[of "CHR ''\<newline>''" "''```'' @ info" "payload @ CHR ''\<newline>'' # closing"]
      py_split_append[of "CHR ''\<newline>''" payload closing]
    by simp
  moreover have "py_split CHR ''\<newline>'' (''```'' @ info) = [''```'' @ info]"
    using info by (intro py_split_no_sep) simp
  moreover have "py_split CHR ''\<newline>'' closing = [closing]"
    using closing by (rule py_split_no_sep)
  ultimately have lines: "py_split CHR ''\<newline>'' x =
      (''```'' @ info) # py_split CHR ''\<newline>'' payload @ [closing]"
    by simp
  have len: "length (py_split CHR ''\<newline>'' x) > 2"
    using py_split_nonempty[of "CHR ''\<newline>''" payload]
    by (cases "py_split CHR ''\<newline>'' payload") (simp_all add: lines)
  have mid: "butlast (tl (py_split CHR ''\<newline>'' x)) = py_split CHR ''\<newline>'' payload"
    by (simp add: lines butlast_append)
  have pre: "prefix ''```'' x"
    using c by simp
  show ?thesis
    using pre len by (simp add: clean_fence_def Let_def mid py_join_split)
qed

lemma no_fence_prefix:
  assumes "\<not> sublist ''```'' payload" and "sublist r payload"
  shows "\<not> prefix ''```'' r"
  using assms by (meson prefix_imp_sublist sublist_order.order_trans)

section \<open>Fence stripping applied twice\<close>

text \<open>
  Claim C8. The fence block of lines 64-69 and 171-176, applied twice, gives what it gives
  applied once, for every text without a fence and for every text with one layer of fencing:
  a text that does not begin with three backticks; a text of an opening line that begins
  with three backticks, a payload without three backticks in a row, and a closing line; a
  text that begins with three backticks and has at most two lines, which the block leaves
  as it is. Nothing is asked of the white space of the payload.
\<close>

theorem clean_fence_idempotent:
  "(\<not> prefix ''```'' x \<longrightarrow> clean_fence (clean_fence x) = clean_fence x) \<and>
   (x = ''```'' @ info @ CHR ''\<newline>'' # payload @ CHR ''\<newline>'' # closing \<and>
    CHR ''\<newline>'' \<notin> set info \<and> CHR ''\<newline>'' \<notin> set closing \<and>
    \<not> sublist ''```'' payload
      \<longrightarrow> clean_fence (clean_fence x) = clean_fence x) \<and>
   (prefix ''```'' x \<and> length (py_split CHR ''\<newline>'' x) \<le> 2
      \<longrightarrow> clean_fence (clean_fence x) = clean_fence x)"
proof (intro conjI impI)
  assume "\<not> prefix ''```'' x"
  then have "clean_fence x = x" by (rule clean_fence_unfenced)
  then show "clean_fence (clean_fence x) = clean_fence x" by simp
next
  assume h: "x = ''```'' @ info @ CHR ''\<newline>'' # payload @ CHR ''\<newline>'' # closing \<and>
    CHR ''\<newline>'' \<notin> set info \<and> CHR ''\<newline>'' \<notin> set closing \<and>
    \<not> sublist ''```'' payload"
  define r where "r = (if prefix ''json'' payload then py_strip (drop 4 payload) else payload)"
  have r: "clean_fence x = r"
    unfolding r_def using h by (intro clean_fence_fenced) auto
  have "sublist r payload"
  proof (cases "prefix ''json'' payload")
    case True
    have "sublist (py_strip (drop 4 payload)) (drop 4 payload)" by (rule py_strip_sublist)
    moreover have "sublist (drop 4 payload) payload"
      by (metis suffix_drop suffix_imp_sublist)
    ultimately show ?thesis using True unfolding r_def
      using sublist_order.order_trans by auto
  next
    case False
    then show ?thesis by (simp add: r_def)
  qed
  then have "\<not> prefix ''```'' r" using h no_fence_prefix by blast
  then have "clean_fence r = r" by (rule clean_fence_unfenced)
  then show "clean_fence (clean_fence x) = clean_fence x" by (simp add: r)
next
  assume "prefix ''```'' x \<and> length (py_split CHR ''\<newline>'' x) \<le> 2"
  then have "clean_fence x = x" by (intro clean_fence_short) auto
  then show "clean_fence (clean_fence x) = clean_fence x" by simp
qed

text \<open>
  The three cases at concrete texts: a bare object with a blank before it, a fenced object
  whose payload is indented, an opening fence that is never closed.
\<close>

theorem clean_fence_idempotent_witness:
  "\<not> prefix ''```'' '' {}'' \<and>
   clean_fence (clean_fence '' {}'') = clean_fence '' {}'' \<and>
   ''```json\<newline> {}\<newline>```'' = ''```'' @ ''json'' @ CHR ''\<newline>'' # '' {}'' @ CHR ''\<newline>'' # ''```'' \<and>
   CHR ''\<newline>'' \<notin> set ''json'' \<and> CHR ''\<newline>'' \<notin> set ''```'' \<and> \<not> sublist ''```'' '' {}'' \<and>
   clean_fence (clean_fence ''```json\<newline> {}\<newline>```'') = clean_fence ''```json\<newline> {}\<newline>```'' \<and>
   prefix ''```'' ''```json {}'' \<and> length (py_split CHR ''\<newline>'' ''```json {}'') \<le> 2 \<and>
   clean_fence (clean_fence ''```json {}'') = clean_fence ''```json {}''"
proof -
  have a: "\<not> prefix ''```'' '' {}''" by simp
  have b: "''```json\<newline> {}\<newline>```'' = ''```'' @ ''json'' @ CHR ''\<newline>'' # '' {}'' @ CHR ''\<newline>'' # ''```''"
    by simp
  have c: "CHR ''\<newline>'' \<notin> set ''json''" "CHR ''\<newline>'' \<notin> set ''```''" by simp_all
  have d: "\<not> sublist ''```'' '' {}''" by (simp add: sublist_Cons_right)
  have e: "prefix ''```'' ''```json {}''" by simp
  have f: "length (py_split CHR ''\<newline>'' ''```json {}'') \<le> 2" by simp
  show ?thesis
    using a b c d e f clean_fence_idempotent[of "'' {}''"]
      clean_fence_idempotent[of "''```json\<newline> {}\<newline>```''" "''json''" "'' {}''" "''```''"]
      clean_fence_idempotent[of "''```json {}''"]
    by blast
qed

section \<open>The run on Acme, stage by stage\<close>

lemma splitlines_page:
  "\<not> is_linebreak a \<Longrightarrow> splitlines_from cur (a # replicate n a) = [cur @ a # replicate n a]"
  by (induction n arbitrary: cur) auto

lemma page_text_Suc: "page_text (Suc n) = CHR ''a'' # page_text n"
  by (simp add: page_text_def)

lemma page_text_nonempty: "0 < n \<Longrightarrow> page_text n \<noteq> []"
  by (simp add: page_text_def)

lemma length_page_text: "length (page_text n) = n"
  by (simp add: page_text_def)

lemma page_text_no_error: "\<not> prefix ''Error'' (page_text n)"
  by (cases n) (simp_all add: page_text_def)

lemma take_drop_page_text: "take i (drop j (page_text n)) = page_text (min i (n - j))"
  by (simp add: page_text_def)

lemma py_strip_page_text: "py_strip (page_text n) = page_text n"
  by (rule py_strip_fixed) (cases n; simp add: page_text_def py_isspace_def)

lemma clean_lines_page_text: "0 < n \<Longrightarrow> clean_lines (page_text n) = page_text n"
proof -
  assume "0 < n"
  then obtain m where n: "n = Suc m" by (cases n) auto
  have "py_splitlines (page_text n) = [page_text n]"
    using splitlines_page[of "CHR ''a''" "[]" m]
    by (simp add: n py_splitlines_def page_text_def is_linebreak_def)
  then show ?thesis
    using \<open>0 < n\<close> by (simp add: clean_lines_def py_strip_page_text page_text_nonempty)
qed

lemma scrape_website_ok:
  "session_get env tr url = Inr (200, body) \<Longrightarrow> soup_get_text env body = Inr (page_text n) \<Longrightarrow>
   0 < n \<Longrightarrow>
   scrape_website env tr url = (tr @ [SessionGet url], page_text (min 5000 (n - 2000)))"
  by (simp add: scrape_website_def clean_lines_page_text take_drop_page_text)

lemma strip_fence_research_answer: "strip_fence research_answer = research_body"
  by (simp add: strip_fence_def clean_fence_def research_answer_def research_body_def py_strip_def py_isspace_def)

lemma strip_fence_pricing_answer: "strip_fence pricing_answer = pricing_answer"
  by (simp add: strip_fence_def clean_fence_def pricing_answer_def py_strip_def py_isspace_def)

lemma strip_fence_news_answer: "strip_fence news_answer = news_answer"
  by (simp add: strip_fence_def clean_fence_def news_answer_def py_strip_def py_isspace_def)

lemma answers_distinct:
  "pricing_answer \<noteq> research_body" "news_answer \<noteq> research_body"
  "news_answer \<noteq> pricing_answer"
  by (simp_all add: pricing_answer_def research_body_def news_answer_def)

lemmas stage_defs =
  research_node_def research_try_def pricing_node_def pricing_extract_def pricing_try_def
  news_node_def news_extract_def news_try_def news_try_url_def writer_node_def writer_try_def
  writer_prompt_def retriever_text_def get_price_chunks_def no_update_def

lemma sidecar_text_dump: "py_json_dump (raw_data acme_final) = sidecar_text"
  by code_simp

lemma env_ok_fields:
  "search_invoke env_ok tr q = Inr ''Acme - https://acme.test''"
  "model_invoke env_ok tr (ResearchPrompt q r) = Inr research_answer"
  "model_invoke env_ok tr (PricingPrompt c) = Inr pricing_answer"
  "model_invoke env_ok tr (NewsPrompt c) = Inr news_answer"
  "model_writer_invoke env_ok tr p = Inr ''# Battle Card: Acme''"
  "requests_get env_ok tr url = Inr 200"
  "session_get env_ok tr url = Inr (200, ''<html></html>'')"
  "hf_embeddings env_ok tr = None"
  "similarity_search env_ok tr chunks query top_k = Inr (take top_k chunks)"
  "write_file env_ok tr name text = None"
  "soup_get_text env_ok body = Inr (page_text 2200)"
  "create_documents env_ok text = Inr [text]"
  "urljoin env_ok base path = Inr (base @ path)"
  "json_loads env_ok research_body = Inr research_json"
  "json_loads env_ok pricing_answer = Inr pricing_json"
  "json_loads env_ok news_answer = Inr news_json"
  "json_dump env_ok (raw_data acme_final) = sidecar_text"
  by (simp_all add: env_ok_def answers_distinct sidecar_text_dump)

lemma scrape_env_ok:
  "scrape_website env_ok tr url = (tr @ [SessionGet url], page_text 200)"
  using scrape_website_ok[of env_ok tr url "''<html></html>''" 2200]
  by (simp add: env_ok_fields)

lemma research_node_ok:
  "research_node env_ok [] (initial_state ''Acme'') =
     (research_events, Inr acme_research_update)"
  by (simp add: stage_defs env_ok_fields initial_state_def research_events_def
      strip_fence_research_answer research_json_def acme_research_update_def)

lemma merge_research_ok:
  "merge (initial_state ''Acme'') acme_research_update = acme_researched"
  by (simp add: merge_def no_update_def initial_state_def acme_researched_def
      acme_research_update_def)

lemma pricing_node_ok:
  "pricing_node env_ok research_events acme_researched =
     (research_events @ pricing_events, Inr acme_pricing_update)"
  by (simp add: acme_pricing_update_def stage_defs env_ok_fields scrape_env_ok acme_researched_def pricing_events_def
      py_rstrip_char_def length_page_text page_text_nonempty page_text_no_error
      strip_fence_pricing_answer)

lemma news_node_ok:
  "news_node env_ok (research_events @ pricing_events) acme_priced =
     (research_events @ pricing_events @ news_events, Inr acme_news_update)"
  by (simp add: acme_news_update_def stage_defs env_ok_fields scrape_env_ok acme_priced_def acme_researched_def
      news_events_def py_rstrip_char_def length_page_text page_text_nonempty page_text_no_error
      strip_fence_news_answer news_json_def)

lemma writer_prompt_ok: "writer_prompt acme_newsed = Inr acme_prompt"
  by (simp add: writer_prompt_def format_competitors_def py_str_join_def format_pricing_def
      format_starter_def format_news_def acme_newsed_def acme_priced_def acme_researched_def
      pricing_json_def acme_prompt_def)

lemma raw_data_final: "raw_data acme_newsed = raw_data acme_final"
  by (simp add: raw_data_def acme_final_def)

lemma writer_node_ok:
  "writer_node env_ok (research_events @ pricing_events @ news_events) acme_newsed =
     (research_events @ pricing_events @ news_events @ writer_events, Inr acme_writer_update)"
proof -
  have stem: "file_stem ''Acme'' = ''acme''"
    by code_simp
  have name: "company_name acme_newsed = ''Acme''" and count: "loop_count acme_newsed = 1"
    by (simp_all add: acme_newsed_def acme_priced_def acme_researched_def)
  show ?thesis
    by (simp add: writer_node_def writer_try_def writer_prompt_ok env_ok_fields raw_data_final
        name count stem writer_events_def no_update_def acme_writer_update_def)
qed

lemma merge_pricing_ok: "merge acme_researched acme_pricing_update = acme_priced"
  by (simp add: merge_def no_update_def acme_priced_def acme_researched_def
      acme_pricing_update_def)

lemma merge_news_ok: "merge acme_priced acme_news_update = acme_newsed"
  by (simp add: merge_def no_update_def acme_newsed_def acme_priced_def acme_researched_def
      acme_news_update_def)

lemma merge_writer_ok: "merge acme_newsed acme_writer_update = acme_final"
  by (simp add: merge_def no_update_def acme_final_def acme_newsed_def acme_priced_def
      acme_researched_def acme_writer_update_def)

lemma graph_invoke_ok:
  "graph_invoke env_ok [] (initial_state ''Acme'') =
     (research_events @ pricing_events @ news_events @ writer_events, Inr acme_final)"
  by (simp add: graph_invoke_def research_node_ok merge_research_ok pricing_node_ok
      merge_pricing_ok news_node_ok merge_news_ok writer_node_ok merge_writer_ok)

section \<open>What each stage returns\<close>

lemma research_node_update:
  "\<exists>w d c. research_node env tr state =
     (fst (research_try env tr (company_name state)),
      Inr (no_update\<lparr>upd_home_url := Some w, upd_description := Some d,
             upd_competitors := Some c, upd_loop_count := Some (loop_count state + 1)\<rparr>))"
  by (cases "research_try env tr (company_name state)")
    (auto simp: research_node_def Let_def)

lemma pricing_extract_update:
  "\<exists>tr1 p. pricing_extract env tr pinfo text =
       (tr1, Inr (no_update\<lparr>upd_pricing_info := Some p\<rparr>)) \<and>
     (p = pinfo \<or> (\<exists>v. p = pinfo @ [v]))"
  by (auto simp: pricing_extract_def split: prod.splits sum.splits option.splits)

lemma pricing_node_update:
  assumes "pricing_node env tr state = (tr1, Inr u)"
  shows "\<exists>p. u = no_update\<lparr>upd_pricing_info := Some p\<rparr> \<and>
     (p = pricing_info state \<or> (\<exists>v. p = pricing_info state @ [v]))"
proof -
  have ex: "\<And>t text. pricing_extract env t (pricing_info state) text = (tr1, Inr u) \<Longrightarrow> ?thesis"
    using pricing_extract_update[of env _ "pricing_info state"] by (metis Pair_inject sum.inject(2))
  show ?thesis
    using assms ex
    by (auto simp: pricing_node_def Let_def
        split: if_splits pyval.splits sum.splits prod.splits option.splits)
qed

lemma news_extract_update:
  "\<exists>tr1 h. news_extract env tr text = (tr1, Inr (no_update\<lparr>upd_news_headlines := Some h\<rparr>))"
  by (auto simp: news_extract_def split: prod.splits sum.splits)

lemma news_node_update:
  assumes "news_node env tr state = (tr1, Inr u)"
  shows "\<exists>h. u = no_update\<lparr>upd_news_headlines := Some h\<rparr>"
proof -
  have ex: "\<And>t text. news_extract env t text = (tr1, Inr u) \<Longrightarrow> ?thesis"
    using news_extract_update[of env] by (metis Pair_inject sum.inject(2))
  show ?thesis
    using assms ex
    by (auto simp: news_node_def Let_def
        split: if_splits pyval.splits sum.splits prod.splits option.splits)
qed

lemma writer_node_update:
  assumes "writer_node env tr state = (tr1, Inr u)"
  shows "\<exists>r. u = no_update\<lparr>upd_final_report := Some r,
                 upd_loop_count := Some (loop_count state + 1)\<rparr>"
  using assms
  by (auto simp: writer_node_def split: sum.splits prod.splits)

lemma loop_count_merge:
  "loop_count (merge st u) = (case upd_loop_count u of None \<Rightarrow> loop_count st | Some v \<Rightarrow> v)"
  by (simp add: merge_def)

lemma graph_invoke_Inr:
  assumes "graph_invoke env tr state = (tr', Inr final)"
  shows "\<exists>tr1 u1 tr2 u2 tr3 u3 u4.
    research_node env tr state = (tr1, Inr u1) \<and>
    pricing_node env tr1 (merge state u1) = (tr2, Inr u2) \<and>
    news_node env tr2 (merge (merge state u1) u2) = (tr3, Inr u3) \<and>
    writer_node env tr3 (merge (merge (merge state u1) u2) u3) = (tr', Inr u4) \<and>
    final = merge (merge (merge (merge state u1) u2) u3) u4"
  using assms
  by (auto simp: graph_invoke_def Let_def split: prod.splits sum.splits)

section \<open>The counter of stages\<close>

text \<open>
  Claim C1, as amended. A run of the graph that returns leaves \<open>loop_count\<close> two above its
  value at the start, so 2 from the initial state: Research and Writer each return the
  counter they read plus one, Pricing and News return no \<open>loop_count\<close> key at all.
\<close>

theorem loop_count_after_run:
  "(graph_invoke env tr state = (tr', Inr final) \<longrightarrow> loop_count final = loop_count state + 2) \<and>
   (research_node env tr state = (tr1, Inr u1) \<longrightarrow>
      upd_loop_count u1 = Some (loop_count state + 1)) \<and>
   (pricing_node env tr state = (tr2, Inr u2) \<longrightarrow> upd_loop_count u2 = None) \<and>
   (news_node env tr state = (tr3, Inr u3) \<longrightarrow> upd_loop_count u3 = None) \<and>
   (writer_node env tr state = (tr4, Inr u4) \<longrightarrow>
      upd_loop_count u4 = Some (loop_count state + 1))"
proof (intro conjI impI)
  assume "graph_invoke env tr state = (tr', Inr final)"
  then obtain t1 v1 t2 v2 t3 v3 v4 where
    r: "research_node env tr state = (t1, Inr v1)" and
    p: "pricing_node env t1 (merge state v1) = (t2, Inr v2)" and
    n: "news_node env t2 (merge (merge state v1) v2) = (t3, Inr v3)" and
    w: "writer_node env t3 (merge (merge (merge state v1) v2) v3) = (tr', Inr v4)" and
    f: "final = merge (merge (merge (merge state v1) v2) v3) v4"
    using graph_invoke_Inr by blast
  from r have 1: "upd_loop_count v1 = Some (loop_count state + 1)"
    using research_node_update[of env tr state] by (auto simp: no_update_def)
  from p have 2: "upd_loop_count v2 = None"
    using pricing_node_update by (fastforce simp: no_update_def)
  from n have 3: "upd_loop_count v3 = None"
    using news_node_update by (fastforce simp: no_update_def)
  from w have 4: "upd_loop_count v4 =
      Some (loop_count (merge (merge (merge state v1) v2) v3) + 1)"
    using writer_node_update by (fastforce simp: no_update_def)
  show "loop_count final = loop_count state + 2"
    by (simp add: f loop_count_merge 1 2 3 4)
next
  assume "research_node env tr state = (tr1, Inr u1)"
  then show "upd_loop_count u1 = Some (loop_count state + 1)"
    using research_node_update[of env tr state] by (auto simp: no_update_def)
next
  assume "pricing_node env tr state = (tr2, Inr u2)"
  then show "upd_loop_count u2 = None"
    using pricing_node_update by (fastforce simp: no_update_def)
next
  assume "news_node env tr state = (tr3, Inr u3)"
  then show "upd_loop_count u3 = None"
    using news_node_update by (fastforce simp: no_update_def)
next
  assume "writer_node env tr state = (tr4, Inr u4)"
  then show "upd_loop_count u4 = Some (loop_count state + 1)"
    using writer_node_update by (fastforce simp: no_update_def)
qed

text \<open>
  The run on Acme, in which every call succeeds, and its four stages.
\<close>

theorem loop_count_after_run_witness:
  "graph_invoke env_ok [] (initial_state ''Acme'') =
     (research_events @ pricing_events @ news_events @ writer_events, Inr acme_final) \<and>
   loop_count acme_final = loop_count (initial_state ''Acme'') + 2 \<and>
   research_node env_ok [] (initial_state ''Acme'') = (research_events, Inr acme_research_update) \<and>
   upd_loop_count acme_research_update = Some (loop_count (initial_state ''Acme'') + 1) \<and>
   pricing_node env_ok research_events acme_researched =
     (research_events @ pricing_events, Inr acme_pricing_update) \<and>
   upd_loop_count acme_pricing_update = None \<and>
   news_node env_ok (research_events @ pricing_events) acme_priced =
     (research_events @ pricing_events @ news_events, Inr acme_news_update) \<and>
   upd_loop_count acme_news_update = None \<and>
   writer_node env_ok (research_events @ pricing_events @ news_events) acme_newsed =
     (research_events @ pricing_events @ news_events @ writer_events, Inr acme_writer_update) \<and>
   upd_loop_count acme_writer_update = Some (loop_count acme_newsed + 1)"
  using graph_invoke_ok research_node_ok pricing_node_ok news_node_ok writer_node_ok
    loop_count_after_run[of env_ok "[]" "initial_state ''Acme''"
      "research_events @ pricing_events @ news_events @ writer_events" acme_final
      research_events acme_research_update]
    loop_count_after_run[of env_ok research_events acme_researched _ _ _ _
      "research_events @ pricing_events" acme_pricing_update]
    loop_count_after_run[of env_ok "research_events @ pricing_events" acme_priced _ _ _ _ _ _
      "research_events @ pricing_events @ news_events" acme_news_update]
    loop_count_after_run[of env_ok "research_events @ pricing_events @ news_events" acme_newsed
      _ _ _ _ _ _ _ _
      "research_events @ pricing_events @ news_events @ writer_events" acme_writer_update]
  by simp

text \<open>
  Claim C1 as stated asks for 4 after a full successful run; the run on Acme ends with 2.
\<close>

theorem loop_count_four_counterexample:
  "graph_invoke env_ok [] (initial_state ''Acme'') =
     (research_events @ pricing_events @ news_events @ writer_events, Inr acme_final) \<and>
   loop_count (initial_state ''Acme'') = 0 \<and> loop_count acme_final = 2 \<and>
   loop_count acme_final \<noteq> 4"
  using graph_invoke_ok
  by (simp add: initial_state_def acme_final_def acme_newsed_def acme_priced_def
      acme_researched_def)

section \<open>The short circuit on an unresolved site\<close>

lemma merge_same_pricing:
  "merge state (no_update\<lparr>upd_pricing_info := Some (pricing_info state)\<rparr>) = state"
  by (simp add: merge_def no_update_def)

text \<open>
  Claim C2, as amended. When \<open>home_url\<close> is the empty string or \<^verbatim>\<open>Not found\<close>, Pricing and News
  return with the trace they were given, so without any call to the outside; Pricing returns
  the \<open>pricing_info\<close> it read, and the state is unchanged by it; News returns the empty list,
  whatever \<open>news_headlines\<close> held.
\<close>

theorem short_circuit_unresolved:
  "home_url state = PStr [] \<or> home_url state = PStr ''Not found'' \<Longrightarrow>
   pricing_node env tr state =
     (tr, Inr (no_update\<lparr>upd_pricing_info := Some (pricing_info state)\<rparr>)) \<and>
   merge state (no_update\<lparr>upd_pricing_info := Some (pricing_info state)\<rparr>) = state \<and>
   news_node env tr state = (tr, Inr (no_update\<lparr>upd_news_headlines := Some (PList [])\<rparr>)) \<and>
   merge state (no_update\<lparr>upd_news_headlines := Some (PList [])\<rparr>) =
     state\<lparr>news_headlines := PList []\<rparr>"
  by (auto simp: pricing_node_def news_node_def merge_def no_update_def)

text \<open>
  Both sentinels: the initial state, and the state of Acme with the site set to \<^verbatim>\<open>Not found\<close>.
\<close>

theorem short_circuit_unresolved_witness:
  "home_url (initial_state ''Acme'') = PStr [] \<and>
   pricing_node env_ok [] (initial_state ''Acme'') =
     ([], Inr (no_update\<lparr>upd_pricing_info := Some []\<rparr>)) \<and>
   news_node env_ok [] (initial_state ''Acme'') =
     ([], Inr (no_update\<lparr>upd_news_headlines := Some (PList [])\<rparr>)) \<and>
   home_url (acme_newsed\<lparr>home_url := PStr ''Not found''\<rparr>) = PStr ''Not found'' \<and>
   pricing_node env_ok [] (acme_newsed\<lparr>home_url := PStr ''Not found''\<rparr>) =
     ([], Inr (no_update\<lparr>upd_pricing_info := Some [pricing_json]\<rparr>)) \<and>
   news_node env_ok [] (acme_newsed\<lparr>home_url := PStr ''Not found''\<rparr>) =
     ([], Inr (no_update\<lparr>upd_news_headlines := Some (PList [])\<rparr>))"
  using short_circuit_unresolved[of "initial_state ''Acme''" env_ok "[]"]
    short_circuit_unresolved[of "acme_newsed\<lparr>home_url := PStr ''Not found''\<rparr>" env_ok "[]"]
  by (simp add: initial_state_def acme_newsed_def acme_priced_def acme_researched_def)

text \<open>
  Claim C2 as stated has News return \<open>news_headlines\<close> unchanged; on a state that holds a
  headline the stage returns the empty list.
\<close>

theorem short_circuit_news_counterexample:
  "home_url (acme_newsed\<lparr>home_url := PStr ''Not found''\<rparr>) = PStr ''Not found'' \<and>
   news_node env_ok [] (acme_newsed\<lparr>home_url := PStr ''Not found''\<rparr>) =
     ([], Inr (no_update\<lparr>upd_news_headlines := Some (PList [])\<rparr>)) \<and>
   news_headlines (acme_newsed\<lparr>home_url := PStr ''Not found''\<rparr>) =
     PList [PDict [(''title'', PStr ''Acme ships''), (''position'', PInt 1)]] \<and>
   news_headlines (acme_newsed\<lparr>home_url := PStr ''Not found''\<rparr>) \<noteq> PList []"
  by (simp add: news_node_def acme_newsed_def acme_priced_def acme_researched_def)

section \<open>The keys each stage writes\<close>

text \<open>
  Claim C4, as amended. Whenever it returns, Research writes \<open>home_url\<close>, \<open>description\<close>,
  \<open>competitors\<close> and \<open>loop_count\<close>; Pricing writes \<open>pricing_info\<close> only; News writes
  \<open>news_headlines\<close> only; Writer writes \<open>final_report\<close> and \<open>loop_count\<close>. The sets are pairwise
  disjoint but for \<open>loop_count\<close>, which Research and Writer both write.
\<close>

theorem stage_write_sets:
  "(research_node env tr state = (tr1, Inr u1) \<longrightarrow>
      written u1 = {HomeUrl, Description, Competitors, LoopCount}) \<and>
   (pricing_node env tr state = (tr2, Inr u2) \<longrightarrow> written u2 = {PricingInfo}) \<and>
   (news_node env tr state = (tr3, Inr u3) \<longrightarrow> written u3 = {NewsHeadlines}) \<and>
   (writer_node env tr state = (tr4, Inr u4) \<longrightarrow> written u4 = {FinalReport, LoopCount})"
proof (intro conjI impI)
  assume "research_node env tr state = (tr1, Inr u1)"
  then obtain w d c where "u1 = no_update\<lparr>upd_home_url := Some w, upd_description := Some d,
      upd_competitors := Some c, upd_loop_count := Some (loop_count state + 1)\<rparr>"
    using research_node_update[of env tr state] by auto
  then show "written u1 = {HomeUrl, Description, Competitors, LoopCount}"
    by (auto simp: no_update_def written_def)
next
  assume "pricing_node env tr state = (tr2, Inr u2)"
  then obtain p where "u2 = no_update\<lparr>upd_pricing_info := Some p\<rparr>"
    using pricing_node_update by blast
  then show "written u2 = {PricingInfo}"
    by (simp add: no_update_def written_def)
next
  assume "news_node env tr state = (tr3, Inr u3)"
  then obtain h where "u3 = no_update\<lparr>upd_news_headlines := Some h\<rparr>"
    using news_node_update by blast
  then show "written u3 = {NewsHeadlines}"
    by (simp add: no_update_def written_def)
next
  assume "writer_node env tr state = (tr4, Inr u4)"
  then obtain r where "u4 = no_update\<lparr>upd_final_report := Some r,
      upd_loop_count := Some (loop_count state + 1)\<rparr>"
    using writer_node_update by blast
  then show "written u4 = {FinalReport, LoopCount}"
    by (auto simp: no_update_def written_def)
qed

text \<open>
  The four stages of the run on Acme.
\<close>

theorem stage_write_sets_witness:
  "research_node env_ok [] (initial_state ''Acme'') = (research_events, Inr acme_research_update) \<and>
   written acme_research_update = {HomeUrl, Description, Competitors, LoopCount} \<and>
   pricing_node env_ok research_events acme_researched =
     (research_events @ pricing_events, Inr acme_pricing_update) \<and>
   written acme_pricing_update = {PricingInfo} \<and>
   news_node env_ok (research_events @ pricing_events) acme_priced =
     (research_events @ pricing_events @ news_events, Inr acme_news_update) \<and>
   written acme_news_update = {NewsHeadlines} \<and>
   writer_node env_ok (research_events @ pricing_events @ news_events) acme_newsed =
     (research_events @ pricing_events @ news_events @ writer_events, Inr acme_writer_update) \<and>
   written acme_writer_update = {FinalReport, LoopCount}"
  using research_node_ok pricing_node_ok news_node_ok writer_node_ok
    stage_write_sets[of env_ok "[]" "initial_state ''Acme''" research_events acme_research_update]
    stage_write_sets[of env_ok research_events acme_researched _ _
      "research_events @ pricing_events" acme_pricing_update]
    stage_write_sets[of env_ok "research_events @ pricing_events" acme_priced _ _ _ _
      "research_events @ pricing_events @ news_events" acme_news_update]
    stage_write_sets[of env_ok "research_events @ pricing_events @ news_events" acme_newsed
      _ _ _ _ _ _
      "research_events @ pricing_events @ news_events @ writer_events" acme_writer_update]
  by simp

text \<open>
  Claim C4 as stated has no key written by two stages; \<open>loop_count\<close> is written by Research
  and by Writer.
\<close>

theorem stage_write_sets_counterexample:
  "research_node env_ok [] (initial_state ''Acme'') = (research_events, Inr acme_research_update) \<and>
   writer_node env_ok (research_events @ pricing_events @ news_events) acme_newsed =
     (research_events @ pricing_events @ news_events @ writer_events, Inr acme_writer_update) \<and>
   LoopCount \<in> written acme_research_update \<inter> written acme_writer_update"
  using research_node_ok writer_node_ok
  by (simp add: written_def acme_research_update_def acme_writer_update_def no_update_def)

section \<open>Research never raises\<close>

lemma py_get_not_dict: "\<forall>kvs. v \<noteq> PDict kvs \<Longrightarrow> py_get v k d = Inl (no_attribute v ''get'')"
  by (cases v) simp_all

lemma env_search_down_fields:
  "search_invoke env_search_down tr q = Inl (Error ''timed out'')"
  by (simp add: env_search_down_def)

lemma env_model_down_fields:
  "search_invoke env_model_down tr q = Inr ''Acme - https://acme.test''"
  "model_invoke env_model_down tr p = Inl (Error ''rate limit reached'')"
  by (simp_all add: env_model_down_def env_ok_def)

lemma env_not_json_fields:
  "search_invoke env_not_json tr q = Inr ''Acme - https://acme.test''"
  "model_invoke env_not_json tr p = Inr ''I could not find that.''"
  "json_loads env_not_json ''I could not find that.'' =
     Inl ''Expecting value: line 1 column 1 (char 0)''"
  by (simp_all add: env_not_json_def env_ok_def research_body_def pricing_answer_def
      news_answer_def)

lemma env_json_list_fields:
  "search_invoke env_json_list tr q = Inr ''Acme - https://acme.test''"
  "model_invoke env_json_list tr p = Inr ''[]''"
  "json_loads env_json_list s = Inr (PList [])"
  by (simp_all add: env_json_list_def env_ok_def)

lemma strip_fence_plain:
  "strip_fence ''I could not find that.'' = ''I could not find that.''"
  "strip_fence ''[]'' = ''[]''"
  by (simp_all add: strip_fence_def clean_fence_def py_strip_def py_isspace_def)

text \<open>
  Claim C7. \<open>research_node\<close> returns in every case, with \<open>loop_count\<close> one above the value it
  read. When the search raises, when the model raises, when the answer of the model does not
  parse, and when it parses to something that is not an object, the stage returns
  \<^verbatim>\<open>Not found\<close>, \<^verbatim>\<open>Not available\<close> and the empty list.
\<close>

theorem research_node_never_raises:
  "let name = company_name state;
       q = name @ '' official website competitors'';
       defaults = no_update\<lparr>upd_home_url := Some (PStr ''Not found''),
                    upd_description := Some (PStr ''Not available''),
                    upd_competitors := Some (PList []),
                    upd_loop_count := Some (loop_count state + 1)\<rparr>
   in (\<exists>tr' u. research_node env tr state = (tr', Inr u) \<and>
          upd_loop_count u = Some (loop_count state + 1)) \<and>
      (search_invoke env tr q = Inl e \<longrightarrow>
         research_node env tr state = (tr @ [Search q], Inr defaults)) \<and>
      (search_invoke env tr q = Inr results \<and>
       model_invoke env (tr @ [Search q]) (ResearchPrompt name results) = Inl e \<longrightarrow>
         research_node env tr state =
           (tr @ [Search q, ModelInvoke (ResearchPrompt name results)], Inr defaults)) \<and>
      (search_invoke env tr q = Inr results \<and>
       model_invoke env (tr @ [Search q]) (ResearchPrompt name results) = Inr response \<and>
       json_loads env (strip_fence response) = Inl m \<longrightarrow>
         research_node env tr state =
           (tr @ [Search q, ModelInvoke (ResearchPrompt name results)], Inr defaults)) \<and>
      (search_invoke env tr q = Inr results \<and>
       model_invoke env (tr @ [Search q]) (ResearchPrompt name results) = Inr response \<and>
       json_loads env (strip_fence response) = Inr v \<and> (\<forall>kvs. v \<noteq> PDict kvs) \<longrightarrow>
         research_node env tr state =
           (tr @ [Search q, ModelInvoke (ResearchPrompt name results)], Inr defaults))"
proof -
  have total: "\<exists>tr' u. research_node env tr state = (tr', Inr u) \<and>
      upd_loop_count u = Some (loop_count state + 1)"
    using research_node_update[of env tr state] by (auto simp: no_update_def)
  show ?thesis
    unfolding Let_def
  proof (intro conjI impI)
    show "\<exists>tr' u. research_node env tr state = (tr', Inr u) \<and>
      upd_loop_count u = Some (loop_count state + 1)"
      by (rule total)
  qed (auto simp: research_node_def research_try_def Let_def py_get_not_dict)
qed

text \<open>
  The four failures, each in a variant of the world of Acme.
\<close>

theorem research_node_never_raises_witness:
  "search_invoke env_search_down [] ''Acme official website competitors'' = Inl (Error ''timed out'') \<and>
   research_node env_search_down [] (initial_state ''Acme'') =
     ([Search ''Acme official website competitors''], Inr research_defaults) \<and>
   search_invoke env_model_down [] ''Acme official website competitors'' =
     Inr ''Acme - https://acme.test'' \<and>
   model_invoke env_model_down [Search ''Acme official website competitors'']
     (ResearchPrompt ''Acme'' ''Acme - https://acme.test'') = Inl (Error ''rate limit reached'') \<and>
   research_node env_model_down [] (initial_state ''Acme'') =
     (research_events, Inr research_defaults) \<and>
   json_loads env_not_json (strip_fence ''I could not find that.'') =
     Inl ''Expecting value: line 1 column 1 (char 0)'' \<and>
   research_node env_not_json [] (initial_state ''Acme'') =
     (research_events, Inr research_defaults) \<and>
   json_loads env_json_list (strip_fence ''[]'') = Inr (PList []) \<and>
   research_node env_json_list [] (initial_state ''Acme'') =
     (research_events, Inr research_defaults)"
  using research_node_never_raises[of "initial_state ''Acme''" env_search_down "[]"
      "Error ''timed out''"]
    research_node_never_raises[of "initial_state ''Acme''" env_model_down "[]"
      "Error ''rate limit reached''" "''Acme - https://acme.test''"]
    research_node_never_raises[of "initial_state ''Acme''" env_not_json "[]" _
      "''Acme - https://acme.test''" "''I could not find that.''"
      "''Expecting value: line 1 column 1 (char 0)''"]
    research_node_never_raises[of "initial_state ''Acme''" env_json_list "[]" _
      "''Acme - https://acme.test''" "''[]''" _ "PList []"]
  by (simp add: Let_def initial_state_def env_search_down_fields env_model_down_fields
      env_not_json_fields env_json_list_fields strip_fence_plain research_defaults_def
      research_events_def)

section \<open>Facts about the probes and the extraction\<close>

lemma pricing_extract_trace:
  "\<exists>evs. fst (pricing_extract env tr pinfo text) = tr @ evs \<and> (\<forall>ev\<in>set evs. \<not> is_fetch ev)"
  by (auto simp: pricing_extract_def pricing_try_def retriever_text_def get_price_chunks_def
      Let_def is_fetch_def split: prod.splits sum.splits option.splits)

lemma news_extract_trace:
  "\<exists>evs. fst (news_extract env tr text) = tr @ evs \<and> (\<forall>ev\<in>set evs. \<not> is_fetch ev)"
  by (auto simp: news_extract_def news_try_def retriever_text_def get_price_chunks_def
      Let_def is_fetch_def split: prod.splits sum.splits option.splits)

lemma scrape_website_trace: "fst (scrape_website env tr url) = tr @ [SessionGet url]"
  by (simp add: scrape_website_def Let_def split: sum.splits prod.splits)

lemma pricing_node_resolved:
  assumes "home_url state = PStr home" "home \<noteq> []" "home \<noteq> ''Not found''"
    and "candidate_urls env home [''pricing'', ''plans'', ''price''] = Inr urls"
    and "pricing_probe env tr urls None = (tr1, Some text)" "text \<noteq> []"
  shows "pricing_node env tr state = pricing_extract env tr1 (pricing_info state) text"
  using assms by (simp add: pricing_node_def)

lemma news_node_resolved:
  assumes "home_url state = PStr home" "home \<noteq> []" "home \<noteq> ''Not found''"
    and "candidate_urls env home [''blog'', ''news'', ''press'', ''updates''] = Inr urls"
    and "news_probe env tr urls None = (tr1, Some text)" "text \<noteq> []"
  shows "news_node env tr state = news_extract env tr1 text"
  using assms by (simp add: news_node_def)

lemma pricing_extract_error_text:
  assumes "prefix ''Error'' text"
  shows "pricing_extract env tr pinfo text =
     (tr @ [EmbeddingsInit], Inr (no_update\<lparr>upd_pricing_info := Some pinfo\<rparr>))"
  using assms
  by (simp add: pricing_extract_def pricing_try_def retriever_text_def Let_def split: option.splits)

lemma show_nat_404: "show_nat 404 = ''404''"
  by code_simp

lemma acme_urls:
  "urljoin env = (\<lambda>base path. Inr (base @ path)) \<Longrightarrow>
   candidate_urls env ''https://acme.test'' [''pricing'', ''plans'', ''price''] =
     Inr [''https://acme.test/pricing'', ''https://acme.test/plans'', ''https://acme.test/price'']"
  "urljoin env = (\<lambda>base path. Inr (base @ path)) \<Longrightarrow>
   candidate_urls env ''https://acme.test'' [''blog'', ''news'', ''press'', ''updates''] =
     Inr [''https://acme.test/blog'', ''https://acme.test/news'', ''https://acme.test/press'',
          ''https://acme.test/updates'']"
  by (simp_all add: py_rstrip_char_def)

lemma urljoin_variants:
  "urljoin env_ok = (\<lambda>base path. Inr (base @ path))"
  "urljoin env_second = (\<lambda>base path. Inr (base @ path))"
  "urljoin env_hundred = (\<lambda>base path. Inr (base @ path))"
  "urljoin env_long_error = (\<lambda>base path. Inr (base @ path))"
  "urljoin env_not_json = (\<lambda>base path. Inr (base @ path))"
  by (simp_all add: env_ok_def env_second_def env_hundred_def env_long_error_def env_not_json_def)

lemma env_second_fields:
  "session_get env_second tr ''https://acme.test/pricing'' = Inr (404, [])"
  "session_get env_second tr ''https://acme.test/blog'' = Inr (404, [])"
  "session_get env_second tr ''https://acme.test/plans'' = Inr (200, ''<html></html>'')"
  "session_get env_second tr ''https://acme.test/news'' = Inr (200, ''<html></html>'')"
  "soup_get_text env_second body = Inr (page_text 2200)"
  "requests_get env_second tr url = Inr 200"
  by (simp_all add: env_second_def env_ok_def)

lemma env_hundred_fields:
  "session_get env_hundred tr ''https://acme.test/pricing'' = Inr (404, [])"
  "session_get env_hundred tr ''https://acme.test/plans'' = Inr (200, ''<html></html>'')"
  "session_get env_hundred tr ''https://acme.test/price'' = Inr (200, ''<html></html>'')"
  "soup_get_text env_hundred body = Inr (page_text 2100)"
  "hf_embeddings env_hundred tr = None"
  "create_documents env_hundred text = Inr [text]"
  "similarity_search env_hundred tr chunks query top_k = Inr (take top_k chunks)"
  "model_invoke env_hundred tr (PricingPrompt c) = Inr pricing_answer"
  "json_loads env_hundred pricing_answer = Inr pricing_json"
  by (simp_all add: env_hundred_def env_second_def env_ok_def answers_distinct)

lemma env_long_error_fields:
  "session_get env_long_error tr ''https://acme.test/pricing'' = Inl (Error timeout_message)"
  "session_get env_long_error tr ''https://acme.test/plans'' = Inr (200, ''<html></html>'')"
  "soup_get_text env_long_error body = Inr (page_text 2200)"
  "hf_embeddings env_long_error tr = None"
  by (simp_all add: env_long_error_def env_ok_def)

lemma scrape_404:
  "session_get env tr url = Inr (404, body) \<Longrightarrow>
   scrape_website env tr url = (tr @ [SessionGet url], ''Error: Status code 404'')"
  by (simp add: scrape_website_def show_nat_404)

lemma scrape_long_error:
  "scrape_website env_long_error tr ''https://acme.test/pricing'' =
     (tr @ [SessionGet ''https://acme.test/pricing''], long_error_text)"
  by (simp add: scrape_website_def env_long_error_fields long_error_text_def)

lemma long_error_text_facts: "prefix ''Error'' long_error_text" "length long_error_text > 100"
  by (simp_all add: long_error_text_def timeout_message_def)

lemma acme_researched_fields:
  "home_url acme_researched = PStr ''https://acme.test''"
  "pricing_info acme_researched = []"
  by (simp_all add: acme_researched_def)

lemma env_not_json_world:
  "session_get env_not_json tr url = Inr (200, ''<html></html>'')"
  "soup_get_text env_not_json body = Inr (page_text 2200)"
  "hf_embeddings env_not_json tr = None"
  "create_documents env_not_json text = Inr [text]"
  "similarity_search env_not_json tr chunks query top_k = Inr (take top_k chunks)"
  by (simp_all add: env_not_json_def env_ok_def)

lemma scrape_env_not_json:
  "scrape_website env_not_json tr url = (tr @ [SessionGet url], page_text 200)"
  using scrape_website_ok[of env_not_json tr url "''<html></html>''" 2200]
  by (simp add: env_not_json_world)

lemma env_second_world:
  "hf_embeddings env_second tr = None"
  "create_documents env_second text = Inr [text]"
  "similarity_search env_second tr chunks query top_k = Inr (take top_k chunks)"
  "model_invoke env_second tr (PricingPrompt c) = Inr pricing_answer"
  "model_invoke env_second tr (NewsPrompt c) = Inr news_answer"
  "json_loads env_second pricing_answer = Inr pricing_json"
  "json_loads env_second news_answer = Inr news_json"
  by (simp_all add: env_second_def env_ok_def answers_distinct)

lemma pricing_extract_page:
  assumes "hf_embeddings env = (\<lambda>tr. None)" "create_documents env = (\<lambda>text. Inr [text])"
    and "similarity_search env = (\<lambda>tr chunks query top_k. Inr (take top_k chunks))"
    and "\<And>tr c. model_invoke env tr (PricingPrompt c) = Inr pricing_answer"
    and "json_loads env pricing_answer = Inr pricing_json" and "0 < n"
  shows "pricing_extract env tr pinfo (page_text n) =
     (tr @ [EmbeddingsInit, VectorSearch [page_text n] default_query 3,
            ModelInvoke (PricingPrompt (page_text n))],
      Inr (no_update\<lparr>upd_pricing_info := Some (pinfo @ [pricing_json])\<rparr>))"
  using assms
  by (simp add: pricing_extract_def pricing_try_def retriever_text_def get_price_chunks_def
      page_text_nonempty page_text_no_error strip_fence_pricing_answer)

lemma news_extract_page:
  assumes "hf_embeddings env = (\<lambda>tr. None)" "create_documents env = (\<lambda>text. Inr [text])"
    and "similarity_search env = (\<lambda>tr chunks query top_k. Inr (take top_k chunks))"
    and "\<And>tr c. model_invoke env tr (NewsPrompt c) = Inr news_answer"
    and "json_loads env news_answer = Inr news_json" and "0 < n"
  shows "news_extract env tr (page_text n) =
     (tr @ [EmbeddingsInit, VectorSearch [page_text n] ''blog headline article title news'' 5,
            ModelInvoke (NewsPrompt (page_text n))],
      Inr acme_news_update)"
  using assms
  by (simp add: news_extract_def news_try_def retriever_text_def get_price_chunks_def
      page_text_nonempty page_text_no_error strip_fence_news_answer news_json_def
      acme_news_update_def)

lemma world_variants:
  "hf_embeddings env_second = (\<lambda>tr. None)" "create_documents env_second = (\<lambda>text. Inr [text])"
  "similarity_search env_second = (\<lambda>tr chunks query top_k. Inr (take top_k chunks))"
  "hf_embeddings env_hundred = (\<lambda>tr. None)" "create_documents env_hundred = (\<lambda>text. Inr [text])"
  "similarity_search env_hundred = (\<lambda>tr chunks query top_k. Inr (take top_k chunks))"
  by (simp_all add: env_second_def env_hundred_def env_ok_def)

lemma env_hundred_world:
  "\<And>tr c. model_invoke env_hundred tr (PricingPrompt c) = Inr pricing_answer"
  "json_loads env_hundred pricing_answer = Inr pricing_json"
  by (simp_all add: env_hundred_fields)

section \<open>An error text longer than the threshold\<close>

text \<open>
  Claim C10. On a resolved site, when \<open>scrape_website\<close> returns for the first pricing
  candidate a text that begins with \<^verbatim>\<open>Error\<close> and is longer than 100 characters, the probe
  stops there with that text, the only fetch of the stage is the one of the first candidate,
  \<open>retriever_text\<close> answers \<^verbatim>\<open>(None, None)\<close> on it, and the stage returns \<open>pricing_info\<close> as it
  was; what a later candidate would have returned plays no part.
\<close>

theorem pricing_accepts_long_error_marker:
  assumes "home_url state = PStr home" "home \<noteq> []" "home \<noteq> ''Not found''"
    and "candidate_urls env home [''pricing'', ''plans'', ''price''] = Inr (url1 # rest)"
    and "scrape_website env tr url1 = (tr1, text)"
    and "prefix ''Error'' text" "length text > 100"
  shows "pricing_probe env tr (url1 # rest) None = (tr @ [SessionGet url1], Some text) \<and>
     (hf_embeddings env tr1 = None \<longrightarrow>
        retriever_text env tr1 text = (tr1 @ [EmbeddingsInit], Inr None)) \<and>
     pricing_node env tr state =
       (tr @ [SessionGet url1, EmbeddingsInit],
        Inr (no_update\<lparr>upd_pricing_info := Some (pricing_info state)\<rparr>)) \<and>
     merge state (no_update\<lparr>upd_pricing_info := Some (pricing_info state)\<rparr>) = state"
proof -
  have tr1: "tr1 = tr @ [SessionGet url1]"
    using assms(5) scrape_website_trace[of env tr url1] by simp
  have ne: "text \<noteq> []" using assms(7) by auto
  have probe: "pricing_probe env tr (url1 # rest) None = (tr1, Some text)"
    using assms(5,7) ne by simp
  have "pricing_node env tr state = pricing_extract env tr1 (pricing_info state) text"
    using assms(1-4) probe ne by (rule pricing_node_resolved)
  then have "pricing_node env tr state =
       (tr @ [SessionGet url1, EmbeddingsInit],
        Inr (no_update\<lparr>upd_pricing_info := Some (pricing_info state)\<rparr>))"
    using assms(6) by (simp add: pricing_extract_error_text tr1)
  moreover have "hf_embeddings env tr1 = None \<longrightarrow>
        retriever_text env tr1 text = (tr1 @ [EmbeddingsInit], Inr None)"
    using assms(6) by (simp add: retriever_text_def)
  ultimately show ?thesis
    using probe tr1 by (simp add: merge_same_pricing)
qed

text \<open>
  The first pricing page of Acme times out with a long message, while the second page
  would have answered a text of 200 characters.
\<close>

theorem pricing_accepts_long_error_marker_witness:
  "home_url acme_researched = PStr ''https://acme.test'' \<and>
   candidate_urls env_long_error ''https://acme.test'' [''pricing'', ''plans'', ''price''] =
     Inr [''https://acme.test/pricing'', ''https://acme.test/plans'', ''https://acme.test/price''] \<and>
   scrape_website env_long_error [] ''https://acme.test/pricing'' =
     ([SessionGet ''https://acme.test/pricing''], long_error_text) \<and>
   prefix ''Error'' long_error_text \<and> length long_error_text > 100 \<and>
   scrape_website env_long_error [SessionGet ''https://acme.test/pricing'']
       ''https://acme.test/plans'' =
     ([SessionGet ''https://acme.test/pricing'', SessionGet ''https://acme.test/plans''],
      page_text 200) \<and>
   length (page_text 200) > 100 \<and> \<not> prefix ''Error'' (page_text 200) \<and>
   pricing_node env_long_error [] acme_researched =
     ([SessionGet ''https://acme.test/pricing'', EmbeddingsInit],
      Inr (no_update\<lparr>upd_pricing_info := Some []\<rparr>))"
proof -
  have u: "candidate_urls env_long_error ''https://acme.test'' [''pricing'', ''plans'', ''price''] =
     Inr [''https://acme.test/pricing'', ''https://acme.test/plans'', ''https://acme.test/price'']"
    by (rule acme_urls) (rule urljoin_variants)
  have s: "scrape_website env_long_error [] ''https://acme.test/pricing'' =
     ([SessionGet ''https://acme.test/pricing''], long_error_text)"
    using scrape_long_error[of "[]"] by simp
  have s2: "scrape_website env_long_error [SessionGet ''https://acme.test/pricing'']
       ''https://acme.test/plans'' =
     ([SessionGet ''https://acme.test/pricing'', SessionGet ''https://acme.test/plans''],
      page_text 200)"
    using scrape_website_ok[of env_long_error "[SessionGet ''https://acme.test/pricing'']"
        "''https://acme.test/plans''" "''<html></html>''" 2200]
    by (simp add: env_long_error_fields)
  show ?thesis
    using pricing_accepts_long_error_marker[of acme_researched "''https://acme.test''"
        env_long_error "''https://acme.test/pricing''"
        "[''https://acme.test/plans'', ''https://acme.test/price'']" "[]"
        "[SessionGet ''https://acme.test/pricing'']" long_error_text]
      u s s2 long_error_text_facts
    by (simp add: acme_researched_fields length_page_text page_text_no_error)
qed

section \<open>Pricing appends one record or nothing\<close>

text \<open>
  Claim C5. On a resolved site whose probe ended with a text: when \<open>retriever_text\<close> answers
  \<^verbatim>\<open>(None, None)\<close>, and when the answer of the model does not parse, the stage returns
  \<open>pricing_info\<close> as it was, and merging that leaves the state as it was; when retrieval, the
  search of the chunks, the model and the parser all succeed, the stage returns \<open>pricing_info\<close>
  with the parsed value appended, once.
\<close>

theorem pricing_appends_one_or_nothing:
  assumes "home_url state = PStr home" "home \<noteq> []" "home \<noteq> ''Not found''"
    and "candidate_urls env home [''pricing'', ''plans'', ''price''] = Inr urls"
    and "pricing_probe env tr urls None = (tr1, Some text)" "text \<noteq> []"
  shows
    "(retriever_text env tr1 text = (tr2, Inr None) \<longrightarrow>
        pricing_node env tr state =
          (tr2, Inr (no_update\<lparr>upd_pricing_info := Some (pricing_info state)\<rparr>))) \<and>
     (retriever_text env tr1 text = (tr2, Inr (Some chunks)) \<and>
      get_price_chunks env tr2 chunks default_query 3 = (tr3, Inr price_chunks) \<and>
      model_invoke env tr3
        (PricingPrompt (py_join ''\<newline>\<newline>---\<newline>\<newline>'' price_chunks)) = Inr res \<and>
      json_loads env (strip_fence res) = Inl m \<longrightarrow>
        pricing_node env tr state =
          (tr3 @ [ModelInvoke
                    (PricingPrompt (py_join ''\<newline>\<newline>---\<newline>\<newline>'' price_chunks))],
           Inr (no_update\<lparr>upd_pricing_info := Some (pricing_info state)\<rparr>))) \<and>
     (retriever_text env tr1 text = (tr2, Inr (Some chunks)) \<and>
      get_price_chunks env tr2 chunks default_query 3 = (tr3, Inr price_chunks) \<and>
      model_invoke env tr3
        (PricingPrompt (py_join ''\<newline>\<newline>---\<newline>\<newline>'' price_chunks)) = Inr res \<and>
      json_loads env (strip_fence res) = Inr res_json \<longrightarrow>
        pricing_node env tr state =
          (tr3 @ [ModelInvoke
                    (PricingPrompt (py_join ''\<newline>\<newline>---\<newline>\<newline>'' price_chunks))],
           Inr (no_update\<lparr>upd_pricing_info := Some (pricing_info state @ [res_json])\<rparr>))) \<and>
     merge state (no_update\<lparr>upd_pricing_info := Some (pricing_info state)\<rparr>) = state \<and>
     merge state (no_update\<lparr>upd_pricing_info := Some (pricing_info state @ [res_json])\<rparr>) =
       state\<lparr>pricing_info := pricing_info state @ [res_json]\<rparr>"
proof -
  have n: "pricing_node env tr state = pricing_extract env tr1 (pricing_info state) text"
    using assms by (rule pricing_node_resolved)
  have m: "merge state (no_update\<lparr>upd_pricing_info := Some (pricing_info state @ [res_json])\<rparr>) =
       state\<lparr>pricing_info := pricing_info state @ [res_json]\<rparr>"
    by (simp add: merge_def no_update_def)
  show ?thesis
    by (simp add: n m merge_same_pricing pricing_extract_def pricing_try_def Let_def)
qed

text \<open>
  The three cases on Acme: the long error text, a model that answers prose, and the world in
  which everything succeeds.
\<close>

theorem pricing_appends_one_or_nothing_witness:
  "home_url acme_researched = PStr ''https://acme.test'' \<and>
   pricing_probe env_long_error []
     [''https://acme.test/pricing'', ''https://acme.test/plans'', ''https://acme.test/price''] None =
     ([SessionGet ''https://acme.test/pricing''], Some long_error_text) \<and>
   retriever_text env_long_error [SessionGet ''https://acme.test/pricing''] long_error_text =
     ([SessionGet ''https://acme.test/pricing'', EmbeddingsInit], Inr None) \<and>
   pricing_node env_long_error [] acme_researched =
     ([SessionGet ''https://acme.test/pricing'', EmbeddingsInit],
      Inr (no_update\<lparr>upd_pricing_info := Some []\<rparr>)) \<and>
   pricing_probe env_not_json []
     [''https://acme.test/pricing'', ''https://acme.test/plans'', ''https://acme.test/price''] None =
     ([SessionGet ''https://acme.test/pricing''], Some (page_text 200)) \<and>
   model_invoke env_not_json
     [SessionGet ''https://acme.test/pricing'', EmbeddingsInit,
      VectorSearch [page_text 200] default_query 3]
     (PricingPrompt (py_join ''\<newline>\<newline>---\<newline>\<newline>'' [page_text 200])) =
     Inr ''I could not find that.'' \<and>
   json_loads env_not_json (strip_fence ''I could not find that.'') =
     Inl ''Expecting value: line 1 column 1 (char 0)'' \<and>
   pricing_node env_not_json [] acme_researched =
     (pricing_events, Inr (no_update\<lparr>upd_pricing_info := Some []\<rparr>)) \<and>
   pricing_probe env_ok []
     [''https://acme.test/pricing'', ''https://acme.test/plans'', ''https://acme.test/price''] None =
     ([SessionGet ''https://acme.test/pricing''], Some (page_text 200)) \<and>
   json_loads env_ok (strip_fence pricing_answer) = Inr pricing_json \<and>
   pricing_node env_ok [] acme_researched =
     (pricing_events, Inr (no_update\<lparr>upd_pricing_info := Some [pricing_json]\<rparr>))"
proof -
  let ?urls = "[''https://acme.test/pricing'', ''https://acme.test/plans'',
    ''https://acme.test/price'']"
  let ?t1 = "[SessionGet ''https://acme.test/pricing'']"
  let ?t2 = "[SessionGet ''https://acme.test/pricing'', EmbeddingsInit]"
  let ?t3 = "[SessionGet ''https://acme.test/pricing'', EmbeddingsInit,
      VectorSearch [page_text 200] default_query 3]"
  have ne: "long_error_text \<noteq> []" "page_text 200 \<noteq> []"
    using long_error_text_facts(2) by (auto simp: page_text_nonempty)
  have pa: "pricing_probe env_long_error [] ?urls None = (?t1, Some long_error_text)"
    using scrape_long_error[of "[]"] long_error_text_facts ne by simp
  have ra: "retriever_text env_long_error ?t1 long_error_text = (?t2, Inr None)"
    using long_error_text_facts by (simp add: retriever_text_def env_long_error_fields)
  have pb: "pricing_probe env_not_json [] ?urls None = (?t1, Some (page_text 200))"
    using scrape_env_not_json[of "[]"] ne by (simp add: length_page_text)
  have rb: "retriever_text env_not_json ?t1 (page_text 200) = (?t2, Inr (Some [page_text 200]))"
    using ne by (simp add: retriever_text_def env_not_json_world page_text_no_error)
  have gb: "get_price_chunks env_not_json ?t2 [page_text 200] default_query 3 =
      (?t3, Inr [page_text 200])"
    by (simp add: get_price_chunks_def env_not_json_world)
  have pc: "pricing_probe env_ok [] ?urls None = (?t1, Some (page_text 200))"
    using scrape_env_ok[of "[]"] ne by (simp add: length_page_text)
  have rc: "retriever_text env_ok ?t1 (page_text 200) = (?t2, Inr (Some [page_text 200]))"
    using ne by (simp add: retriever_text_def env_ok_fields page_text_no_error)
  have gc: "get_price_chunks env_ok ?t2 [page_text 200] default_query 3 =
      (?t3, Inr [page_text 200])"
    by (simp add: get_price_chunks_def env_ok_fields)
  have home: "home_url acme_researched = PStr ''https://acme.test''"
    and h1: "''https://acme.test'' \<noteq> []" and h2: "''https://acme.test'' \<noteq> ''Not found''"
    by (simp_all add: acme_researched_fields)
  have ua: "candidate_urls env_long_error ''https://acme.test'' [''pricing'', ''plans'', ''price'']
      = Inr ?urls"
    and ub: "candidate_urls env_not_json ''https://acme.test'' [''pricing'', ''plans'', ''price'']
      = Inr ?urls"
    and uc: "candidate_urls env_ok ''https://acme.test'' [''pricing'', ''plans'', ''price'']
      = Inr ?urls"
    by (rule acme_urls, rule urljoin_variants)+
  have mb: "model_invoke env_not_json ?t3
      (PricingPrompt (py_join ''\<newline>\<newline>---\<newline>\<newline>'' [page_text 200])) =
      Inr ''I could not find that.''"
    by (simp add: env_not_json_fields)
  have jb: "json_loads env_not_json (strip_fence ''I could not find that.'') =
      Inl ''Expecting value: line 1 column 1 (char 0)''"
    by (simp add: env_not_json_fields strip_fence_plain)
  have mc: "model_invoke env_ok ?t3
      (PricingPrompt (py_join ''\<newline>\<newline>---\<newline>\<newline>'' [page_text 200])) =
      Inr pricing_answer"
    by (simp add: env_ok_fields)
  have jc: "json_loads env_ok (strip_fence pricing_answer) = Inr pricing_json"
    by (simp add: env_ok_fields strip_fence_pricing_answer)
  have ev: "?t3 @ [ModelInvoke
      (PricingPrompt (py_join ''\<newline>\<newline>---\<newline>\<newline>'' [page_text 200]))] = pricing_events"
    by (simp add: pricing_events_def)
  have a: "pricing_node env_long_error [] acme_researched =
      (?t2, Inr (no_update\<lparr>upd_pricing_info := Some []\<rparr>))"
    using pricing_appends_one_or_nothing[OF home h1 h2 ua pa ne(1), of ?t2] ra
    by (simp only: acme_researched_fields)
  have b: "pricing_node env_not_json [] acme_researched =
      (pricing_events, Inr (no_update\<lparr>upd_pricing_info := Some []\<rparr>))"
    using pricing_appends_one_or_nothing[OF home h1 h2 ub pb ne(2), of ?t2 "[page_text 200]" ?t3
        "[page_text 200]" "''I could not find that.''"
        "''Expecting value: line 1 column 1 (char 0)''"] rb gb mb jb
    by (simp only: acme_researched_fields ev)
  have c: "pricing_node env_ok [] acme_researched =
      (pricing_events, Inr (no_update\<lparr>upd_pricing_info := Some [pricing_json]\<rparr>))"
    using pricing_appends_one_or_nothing[OF home h1 h2 uc pc ne(2), of ?t2 "[page_text 200]" ?t3
        "[page_text 200]" pricing_answer _ pricing_json] rb rc gc mc jc
    by (simp only: acme_researched_fields ev append_Nil)
  show ?thesis
    by (intro conjI) (fact home pa ra a pb mb jb b pc jc c)+
qed

section \<open>The first candidate that matches wins\<close>

text \<open>
  Claim C3, as amended. Pricing: when the first candidate returns a text of at most 100
  characters and the second a text of more than 100, the stage fetches these two and nothing
  else, and extracts from the text of the second. News: when the first candidate either fails
  its status request or returns a text of at most 100 characters, and the second passes the
  status request and returns a text of more than 100, the stage extracts from the text of the
  second and fetches nothing after it.
\<close>

theorem probe_first_match_wins:
  "(home_url state = PStr home \<and> home \<noteq> [] \<and> home \<noteq> ''Not found'' \<and>
    candidate_urls env home [''pricing'', ''plans'', ''price''] = Inr (url1 # url2 # rest) \<and>
    scrape_website env tr url1 = (tr1, text1) \<and> length text1 \<le> 100 \<and>
    scrape_website env tr1 url2 = (tr2, text2) \<and> length text2 > 100 \<longrightarrow>
      tr2 = tr @ [SessionGet url1, SessionGet url2] \<and>
      pricing_node env tr state = pricing_extract env tr2 (pricing_info state) text2 \<and>
      (\<exists>evs. fst (pricing_node env tr state) = tr2 @ evs \<and> (\<forall>ev\<in>set evs. \<not> is_fetch ev))) \<and>
   (home_url state = PStr home \<and> home \<noteq> [] \<and> home \<noteq> ''Not found'' \<and>
    candidate_urls env home [''blog'', ''news'', ''press'', ''updates''] = Inr (url1 # url2 # rest) \<and>
    news_try_url env tr url1 = (tr1, found1) \<and>
    (case found1 of None \<Rightarrow> True | Some text1 \<Rightarrow> length text1 \<le> 100) \<and>
    news_try_url env tr1 url2 = (tr2, Some text2) \<and> length text2 > 100 \<longrightarrow>
      tr2 = tr1 @ [RequestsGet url2, SessionGet url2] \<and>
      news_node env tr state = news_extract env tr2 text2 \<and>
      (\<exists>evs. fst (news_node env tr state) = tr2 @ evs \<and> (\<forall>ev\<in>set evs. \<not> is_fetch ev)))"
proof (intro conjI impI)
  assume h: "home_url state = PStr home \<and> home \<noteq> [] \<and> home \<noteq> ''Not found'' \<and>
    candidate_urls env home [''pricing'', ''plans'', ''price''] = Inr (url1 # url2 # rest) \<and>
    scrape_website env tr url1 = (tr1, text1) \<and> length text1 \<le> 100 \<and>
    scrape_website env tr1 url2 = (tr2, text2) \<and> length text2 > 100"
  then have ne: "text2 \<noteq> []" by auto
  have probe: "pricing_probe env tr (url1 # url2 # rest) None = (tr2, Some text2)"
    using h ne by simp
  show "tr2 = tr @ [SessionGet url1, SessionGet url2]"
    using h scrape_website_trace[of env tr url1] scrape_website_trace[of env tr1 url2] by simp
  show n: "pricing_node env tr state = pricing_extract env tr2 (pricing_info state) text2"
    using h probe ne by (intro pricing_node_resolved[of state home env "url1 # url2 # rest"]) auto
  show "\<exists>evs. fst (pricing_node env tr state) = tr2 @ evs \<and> (\<forall>ev\<in>set evs. \<not> is_fetch ev)"
    unfolding n by (rule pricing_extract_trace)
next
  assume h: "home_url state = PStr home \<and> home \<noteq> [] \<and> home \<noteq> ''Not found'' \<and>
    candidate_urls env home [''blog'', ''news'', ''press'', ''updates''] = Inr (url1 # url2 # rest) \<and>
    news_try_url env tr url1 = (tr1, found1) \<and>
    (case found1 of None \<Rightarrow> True | Some text1 \<Rightarrow> length text1 \<le> 100) \<and>
    news_try_url env tr1 url2 = (tr2, Some text2) \<and> length text2 > 100"
  then have ne: "text2 \<noteq> []" by auto
  have probe: "news_probe env tr (url1 # url2 # rest) None = (tr2, Some text2)"
    using h ne by (cases found1) auto
  show "tr2 = tr1 @ [RequestsGet url2, SessionGet url2]"
    using h scrape_website_trace[of env "tr1 @ [RequestsGet url2]" url2]
    by (auto simp: news_try_url_def Let_def split: sum.splits if_splits prod.splits)
  show n: "news_node env tr state = news_extract env tr2 text2"
    using h probe ne by (intro news_node_resolved[of state home env "url1 # url2 # rest"]) auto
  show "\<exists>evs. fst (news_node env tr state) = tr2 @ evs \<and> (\<forall>ev\<in>set evs. \<not> is_fetch ev)"
    unfolding n by (rule news_extract_trace)
qed

text \<open>
  Acme with the first pricing page and the first blog page answering 404.
\<close>

theorem probe_first_match_wins_witness:
  "home_url acme_researched = PStr ''https://acme.test'' \<and>
   candidate_urls env_second ''https://acme.test'' [''pricing'', ''plans'', ''price''] =
     Inr [''https://acme.test/pricing'', ''https://acme.test/plans'', ''https://acme.test/price''] \<and>
   scrape_website env_second [] ''https://acme.test/pricing'' =
     ([SessionGet ''https://acme.test/pricing''], ''Error: Status code 404'') \<and>
   length ''Error: Status code 404'' \<le> 100 \<and>
   scrape_website env_second [SessionGet ''https://acme.test/pricing''] ''https://acme.test/plans'' =
     ([SessionGet ''https://acme.test/pricing'', SessionGet ''https://acme.test/plans''],
      page_text 200) \<and>
   length (page_text 200) > 100 \<and>
   pricing_node env_second [] acme_researched =
     pricing_extract env_second
       [SessionGet ''https://acme.test/pricing'', SessionGet ''https://acme.test/plans''] []
       (page_text 200) \<and>
   pricing_node env_second [] acme_researched =
     ([SessionGet ''https://acme.test/pricing'', SessionGet ''https://acme.test/plans'',
       EmbeddingsInit, VectorSearch [page_text 200] default_query 3,
       ModelInvoke (PricingPrompt (page_text 200))],
      Inr acme_pricing_update) \<and>
   candidate_urls env_second ''https://acme.test'' [''blog'', ''news'', ''press'', ''updates''] =
     Inr [''https://acme.test/blog'', ''https://acme.test/news'', ''https://acme.test/press'',
          ''https://acme.test/updates''] \<and>
   news_try_url env_second [] ''https://acme.test/blog'' =
     ([RequestsGet ''https://acme.test/blog'', SessionGet ''https://acme.test/blog''],
      Some ''Error: Status code 404'') \<and>
   news_try_url env_second
       [RequestsGet ''https://acme.test/blog'', SessionGet ''https://acme.test/blog'']
       ''https://acme.test/news'' =
     ([RequestsGet ''https://acme.test/blog'', SessionGet ''https://acme.test/blog'',
       RequestsGet ''https://acme.test/news'', SessionGet ''https://acme.test/news''],
      Some (page_text 200)) \<and>
   news_node env_second [] acme_researched =
     ([RequestsGet ''https://acme.test/blog'', SessionGet ''https://acme.test/blog'',
       RequestsGet ''https://acme.test/news'', SessionGet ''https://acme.test/news'',
       EmbeddingsInit, VectorSearch [page_text 200] ''blog headline article title news'' 5,
       ModelInvoke (NewsPrompt (page_text 200))],
      Inr acme_news_update)"
proof -
  let ?p1 = "[SessionGet ''https://acme.test/pricing'']"
  let ?p2 = "[SessionGet ''https://acme.test/pricing'', SessionGet ''https://acme.test/plans'']"
  let ?n1 = "[RequestsGet ''https://acme.test/blog'', SessionGet ''https://acme.test/blog'']"
  let ?n2 = "[RequestsGet ''https://acme.test/blog'', SessionGet ''https://acme.test/blog'',
       RequestsGet ''https://acme.test/news'', SessionGet ''https://acme.test/news'']"
  have home: "home_url acme_researched = PStr ''https://acme.test''"
    by (simp add: acme_researched_fields)
  have up: "candidate_urls env_second ''https://acme.test'' [''pricing'', ''plans'', ''price''] =
     Inr [''https://acme.test/pricing'', ''https://acme.test/plans'', ''https://acme.test/price'']"
    by (rule acme_urls, rule urljoin_variants)
  have un: "candidate_urls env_second ''https://acme.test''
      [''blog'', ''news'', ''press'', ''updates''] =
     Inr [''https://acme.test/blog'', ''https://acme.test/news'', ''https://acme.test/press'',
          ''https://acme.test/updates'']"
    by (rule acme_urls, rule urljoin_variants)
  have s1: "scrape_website env_second [] ''https://acme.test/pricing'' =
     (?p1, ''Error: Status code 404'')"
    using scrape_404[of env_second "[]" "''https://acme.test/pricing''" "[]"]
    by (simp add: env_second_fields)
  have l1: "length ''Error: Status code 404'' \<le> 100" by simp
  have s2: "scrape_website env_second ?p1 ''https://acme.test/plans'' = (?p2, page_text 200)"
    using scrape_website_ok[of env_second ?p1 "''https://acme.test/plans''" "''<html></html>''"
        2200]
    by (simp add: env_second_fields)
  have l2: "length (page_text 200) > 100" by (simp add: length_page_text)
  have t1: "news_try_url env_second [] ''https://acme.test/blog'' =
      (?n1, Some ''Error: Status code 404'')"
    using scrape_404[of env_second "[RequestsGet ''https://acme.test/blog'']"
        "''https://acme.test/blog''" "[]"]
    by (simp add: news_try_url_def env_second_fields)
  have t2: "news_try_url env_second ?n1 ''https://acme.test/news'' = (?n2, Some (page_text 200))"
    using scrape_website_ok[of env_second "?n1 @ [RequestsGet ''https://acme.test/news'']"
        "''https://acme.test/news''" "''<html></html>''" 2200]
    by (simp add: news_try_url_def env_second_fields)
  have c1: "case Some ''Error: Status code 404'' of None \<Rightarrow> True | Some text1 \<Rightarrow> length text1 \<le> 100"
    by simp
  have a: "pricing_node env_second [] acme_researched =
      pricing_extract env_second ?p2 [] (page_text 200)"
    using probe_first_match_wins[where state = acme_researched and home = "''https://acme.test''"
        and env = env_second and ?url1.0 = "''https://acme.test/pricing''"
        and ?url2.0 = "''https://acme.test/plans''" and rest = "[''https://acme.test/price'']"
        and tr = "[]" and ?tr1.0 = ?p1 and ?text1.0 = "''Error: Status code 404''"
        and ?tr2.0 = ?p2 and ?text2.0 = "page_text 200"]
      home up s1 l1 s2 l2
    by (simp only: acme_researched_fields) simp
  have a': "pricing_node env_second [] acme_researched =
     ([SessionGet ''https://acme.test/pricing'', SessionGet ''https://acme.test/plans'',
       EmbeddingsInit, VectorSearch [page_text 200] default_query 3,
       ModelInvoke (PricingPrompt (page_text 200))],
      Inr acme_pricing_update)"
    unfolding a
    by (subst pricing_extract_page)
      (simp_all add: world_variants env_second_world acme_pricing_update_def)
  have b: "news_node env_second [] acme_researched = news_extract env_second ?n2 (page_text 200)"
    using probe_first_match_wins[where state = acme_researched and home = "''https://acme.test''"
        and env = env_second and ?url1.0 = "''https://acme.test/blog''"
        and ?url2.0 = "''https://acme.test/news''"
        and rest = "[''https://acme.test/press'', ''https://acme.test/updates'']"
        and tr = "[]" and ?tr1.0 = ?n1 and ?found1.0 = "Some ''Error: Status code 404''"
        and ?tr2.0 = ?n2 and ?text2.0 = "page_text 200"]
      home un t1 c1 t2 l2
    by (simp only: acme_researched_fields) simp
  have b': "news_node env_second [] acme_researched =
     ([RequestsGet ''https://acme.test/blog'', SessionGet ''https://acme.test/blog'',
       RequestsGet ''https://acme.test/news'', SessionGet ''https://acme.test/news'',
       EmbeddingsInit, VectorSearch [page_text 200] ''blog headline article title news'' 5,
       ModelInvoke (NewsPrompt (page_text 200))],
      Inr acme_news_update)"
    unfolding b
    by (subst news_extract_page) (simp_all add: world_variants env_second_world)
  show ?thesis
    by (intro conjI) (fact home up s1 l1 s2 l2 a a' un t1 t2 b')+
qed

text \<open>
  Claim C3 as stated fails in two ways. A second candidate of exactly 100 characters is not
  accepted (the test is \<^verbatim>\<open>len(text) > 100\<close>) and the third candidate is fetched. A first
  candidate whose error text is longer than 100 characters is accepted, and the second
  candidate, which would have returned 200 characters, is never fetched.
\<close>

theorem probe_first_match_wins_counterexample:
  "scrape_website env_hundred [] ''https://acme.test/pricing'' =
     ([SessionGet ''https://acme.test/pricing''], ''Error: Status code 404'') \<and>
   scrape_website env_hundred [SessionGet ''https://acme.test/pricing''] ''https://acme.test/plans'' =
     ([SessionGet ''https://acme.test/pricing'', SessionGet ''https://acme.test/plans''],
      page_text 100) \<and>
   length (page_text 100) \<ge> 100 \<and>
   pricing_node env_hundred [] acme_researched =
     ([SessionGet ''https://acme.test/pricing'', SessionGet ''https://acme.test/plans'',
       SessionGet ''https://acme.test/price'', EmbeddingsInit,
       VectorSearch [page_text 100] default_query 3,
       ModelInvoke (PricingPrompt (page_text 100))],
      Inr acme_pricing_update) \<and>
   scrape_website env_long_error [] ''https://acme.test/pricing'' =
     ([SessionGet ''https://acme.test/pricing''], long_error_text) \<and>
   prefix ''Error'' long_error_text \<and>
   scrape_website env_long_error [SessionGet ''https://acme.test/pricing'']
       ''https://acme.test/plans'' =
     ([SessionGet ''https://acme.test/pricing'', SessionGet ''https://acme.test/plans''],
      page_text 200) \<and>
   length (page_text 200) \<ge> 100 \<and>
   pricing_node env_long_error [] acme_researched =
     ([SessionGet ''https://acme.test/pricing'', EmbeddingsInit],
      Inr (no_update\<lparr>upd_pricing_info := Some []\<rparr>))"
proof -
  let ?p1 = "[SessionGet ''https://acme.test/pricing'']"
  let ?p2 = "[SessionGet ''https://acme.test/pricing'', SessionGet ''https://acme.test/plans'']"
  let ?p3 = "[SessionGet ''https://acme.test/pricing'', SessionGet ''https://acme.test/plans'',
       SessionGet ''https://acme.test/price'']"
  have s1: "scrape_website env_hundred [] ''https://acme.test/pricing'' =
     (?p1, ''Error: Status code 404'')"
    using scrape_404[of env_hundred "[]" "''https://acme.test/pricing''" "[]"]
    by (simp add: env_hundred_fields)
  have s2: "scrape_website env_hundred ?p1 ''https://acme.test/plans'' = (?p2, page_text 100)"
    using scrape_website_ok[of env_hundred ?p1 "''https://acme.test/plans''" "''<html></html>''"
        2100]
    by (simp add: env_hundred_fields)
  have s3: "scrape_website env_hundred ?p2 ''https://acme.test/price'' = (?p3, page_text 100)"
    using scrape_website_ok[of env_hundred ?p2 "''https://acme.test/price''" "''<html></html>''"
        2100]
    by (simp add: env_hundred_fields)
  have l: "length (page_text 100) \<ge> 100" "length (page_text 200) \<ge> 100"
    by (simp_all add: length_page_text)
  have u: "candidate_urls env_hundred ''https://acme.test'' [''pricing'', ''plans'', ''price''] =
     Inr [''https://acme.test/pricing'', ''https://acme.test/plans'', ''https://acme.test/price'']"
    by (rule acme_urls, rule urljoin_variants)
  have probe: "pricing_probe env_hundred []
      [''https://acme.test/pricing'', ''https://acme.test/plans'', ''https://acme.test/price'']
      None = (?p3, Some (page_text 100))"
    by (simp add: s1 s2 s3 length_page_text)
  have "pricing_node env_hundred [] acme_researched =
      pricing_extract env_hundred ?p3 [] (page_text 100)"
    using pricing_node_resolved[of acme_researched "''https://acme.test''" env_hundred _ "[]" ?p3
        "page_text 100", OF _ _ _ u probe]
    by (simp add: acme_researched_fields page_text_nonempty)
  then have a: "pricing_node env_hundred [] acme_researched =
     ([SessionGet ''https://acme.test/pricing'', SessionGet ''https://acme.test/plans'',
       SessionGet ''https://acme.test/price'', EmbeddingsInit,
       VectorSearch [page_text 100] default_query 3,
       ModelInvoke (PricingPrompt (page_text 100))],
      Inr acme_pricing_update)"
    by (simp add: pricing_extract_page world_variants env_hundred_world acme_pricing_update_def)
  have e1: "scrape_website env_long_error [] ''https://acme.test/pricing'' = (?p1, long_error_text)"
    using scrape_long_error[of "[]"] by simp
  have e2: "scrape_website env_long_error ?p1 ''https://acme.test/plans'' = (?p2, page_text 200)"
    using scrape_website_ok[of env_long_error ?p1 "''https://acme.test/plans''"
        "''<html></html>''" 2200]
    by (simp add: env_long_error_fields)
  have ue: "candidate_urls env_long_error ''https://acme.test'' [''pricing'', ''plans'', ''price'']
      = Inr [''https://acme.test/pricing'', ''https://acme.test/plans'',
             ''https://acme.test/price'']"
    by (rule acme_urls, rule urljoin_variants)
  have ne: "long_error_text \<noteq> []" using long_error_text_facts(2) by auto
  have probe_e: "pricing_probe env_long_error []
      [''https://acme.test/pricing'', ''https://acme.test/plans'', ''https://acme.test/price'']
      None = (?p1, Some long_error_text)"
    using long_error_text_facts ne by (simp add: e1)
  have "pricing_node env_long_error [] acme_researched =
      pricing_extract env_long_error ?p1 [] long_error_text"
    using pricing_node_resolved[of acme_researched "''https://acme.test''" env_long_error _ "[]"
        ?p1 long_error_text, OF _ _ _ ue probe_e]
    by (simp add: acme_researched_fields ne)
  then have b: "pricing_node env_long_error [] acme_researched =
     ([SessionGet ''https://acme.test/pricing'', EmbeddingsInit],
      Inr (no_update\<lparr>upd_pricing_info := Some []\<rparr>))"
    by (simp add: pricing_extract_error_text long_error_text_facts)
  show ?thesis
    by (intro conjI) (fact s1 s2 l a e1 long_error_text_facts e2 b)+
qed

section \<open>Facts about the Writer\<close>

lemma error_banner_nonempty:
  "error_banner e \<noteq> []" "prefix ''# Error Generating Battle Card'' (error_banner e)"
  by (simp_all add: error_banner_def)

lemma file_stem_acme: "file_stem ''Acme'' = ''acme''"
  by code_simp

lemma acme_newsed_fields:
  "company_name acme_newsed = ''Acme''" "loop_count acme_newsed = 1"
  "file_stem (company_name acme_newsed) = ''acme''"
  "raw_data acme_newsed = raw_data acme_final"
proof -
  show n: "company_name acme_newsed = ''Acme''" and "loop_count acme_newsed = 1"
    by (simp_all add: acme_newsed_def acme_priced_def acme_researched_def)
  show "file_stem (company_name acme_newsed) = ''acme''" by (simp add: n file_stem_acme)
  show "raw_data acme_newsed = raw_data acme_final" by (rule raw_data_final)
qed

lemma writer_variants:
  "model_writer_invoke env_writer_down tr p = Inl (Error ''rate limit reached'')"
  "model_writer_invoke env_disk_full tr p = Inr ''# Battle Card: Acme''"
  "write_file env_disk_full tr name text = Some (Error ''No space left on device'')"
  "model_writer_invoke env_sidecar_fails tr p = Inr ''# Battle Card: Acme''"
  "write_file env_sidecar_fails tr ''acme_battle_card.md'' text = None"
  "write_file env_sidecar_fails tr ''acme_data.json'' text = Some (Error ''No space left on device'')"
  "json_dump env_sidecar_fails (raw_data acme_final) = sidecar_text"
  "model_writer_invoke env_empty_card tr p = Inr []"
  "write_file env_empty_card tr name text = None"
  "json_dump env_empty_card (raw_data acme_final) = sidecar_text"
  by (simp_all add: env_writer_down_def env_disk_full_def env_sidecar_fails_def
      env_empty_card_def env_ok_def sidecar_text_dump)

lemma show_nat_0: "show_nat 0 = ''0''"
  by code_simp

lemma merge_writer_fields:
  assumes "writer_node env tr state = (tr', Inr u)"
  shows "company_name (merge state u) = company_name state"
    "home_url (merge state u) = home_url state"
    "description (merge state u) = description state"
    "competitors (merge state u) = competitors state"
    "pricing_info (merge state u) = pricing_info state"
    "news_headlines (merge state u) = news_headlines state"
proof -
  obtain r where "u = no_update\<lparr>upd_final_report := Some r,
      upd_loop_count := Some (loop_count state + 1)\<rparr>"
    using assms writer_node_update by blast
  then show "company_name (merge state u) = company_name state"
    "home_url (merge state u) = home_url state"
    "description (merge state u) = description state"
    "competitors (merge state u) = competitors state"
    "pricing_info (merge state u) = pricing_info state"
    "news_headlines (merge state u) = news_headlines state"
    by (simp_all add: merge_def no_update_def)
qed

lemma writer_sidecar_text:
  assumes "writer_node env tr state = (tr', Inr u)"
    and "WriteFile (file_stem (company_name state) @ ''_data.json'') json_text
           \<in> set (drop (length tr) tr')"
  shows "json_text = json_dump env (raw_data state)"
  using assms
  by (auto simp: writer_node_def writer_try_def Let_def
      split: sum.splits prod.splits option.splits)

section \<open>What the Writer contains and what it lets through\<close>

text \<open>
  Claim C6, as amended. For every state whose fields the formatting lines accept (so that
  the prompt is built), \<open>writer_node\<close> returns, with \<open>loop_count\<close> one above the value it read:
  when the model raises, or the report cannot be written, or the sidecar cannot be written,
  \<open>final_report\<close> is the error banner followed by the text of the exception, which is never
  empty; when all three succeed, \<open>final_report\<close> is the text of the model as it came, empty
  when the model answered the empty text. The formatting lines stand before the \<^verbatim>\<open>try\<close>; an
  exception they raise leaves the stage.
\<close>

theorem writer_contains_generation_errors:
  assumes "writer_prompt state = Inr prompt"
  shows
    "let md_name = file_stem (company_name state) @ ''_battle_card.md'';
         json_name = file_stem (company_name state) @ ''_data.json'';
         json_text = json_dump env (raw_data state);
         degraded = (\<lambda>e. no_update\<lparr>upd_final_report := Some (error_banner e),
                        upd_loop_count := Some (loop_count state + 1)\<rparr>)
     in (\<exists>tr' report. writer_node env tr state =
           (tr', Inr (no_update\<lparr>upd_final_report := Some report,
                        upd_loop_count := Some (loop_count state + 1)\<rparr>))) \<and>
        (model_writer_invoke env tr prompt = Inl e \<longrightarrow>
           writer_node env tr state = (tr @ [WriterInvoke prompt], Inr (degraded e))) \<and>
        (model_writer_invoke env tr prompt = Inr battle_card \<and>
         write_file env (tr @ [WriterInvoke prompt]) md_name battle_card = Some e \<longrightarrow>
           writer_node env tr state =
             (tr @ [WriterInvoke prompt, WriteFile md_name battle_card], Inr (degraded e))) \<and>
        (model_writer_invoke env tr prompt = Inr battle_card \<and>
         write_file env (tr @ [WriterInvoke prompt]) md_name battle_card = None \<and>
         write_file env (tr @ [WriterInvoke prompt, WriteFile md_name battle_card]) json_name json_text
           = Some e \<longrightarrow>
           writer_node env tr state =
             (tr @ [WriterInvoke prompt, WriteFile md_name battle_card, WriteFile json_name json_text],
              Inr (degraded e))) \<and>
        (model_writer_invoke env tr prompt = Inr battle_card \<and>
         write_file env (tr @ [WriterInvoke prompt]) md_name battle_card = None \<and>
         write_file env (tr @ [WriterInvoke prompt, WriteFile md_name battle_card]) json_name json_text
           = None \<longrightarrow>
           writer_node env tr state =
             (tr @ [WriterInvoke prompt, WriteFile md_name battle_card, WriteFile json_name json_text],
              Inr (no_update\<lparr>upd_final_report := Some battle_card,
                     upd_loop_count := Some (loop_count state + 1)\<rparr>))) \<and>
        error_banner e \<noteq> [] \<and> prefix ''# Error Generating Battle Card'' (error_banner e)"
proof -
  have total: "\<exists>tr' report. writer_node env tr state =
           (tr', Inr (no_update\<lparr>upd_final_report := Some report,
                        upd_loop_count := Some (loop_count state + 1)\<rparr>))"
    using assms by (auto simp: writer_node_def split: prod.splits sum.splits)
  show ?thesis
    unfolding Let_def
  proof (intro conjI impI)
    show "\<exists>tr' report. writer_node env tr state =
           (tr', Inr (no_update\<lparr>upd_final_report := Some report,
                        upd_loop_count := Some (loop_count state + 1)\<rparr>))"
      by (rule total)
  qed (auto simp: writer_node_def writer_try_def Let_def assms error_banner_nonempty)
qed

text \<open>
  The state of Acme before the Writer, with a writer model that raises, a full disk, a
  sidecar that cannot be written, and the world in which everything succeeds.
\<close>

theorem writer_contains_generation_errors_witness:
  "writer_prompt acme_newsed = Inr acme_prompt \<and>
   model_writer_invoke env_writer_down [] acme_prompt = Inl (Error ''rate limit reached'') \<and>
   writer_node env_writer_down [] acme_newsed =
     ([WriterInvoke acme_prompt],
      Inr (no_update\<lparr>upd_final_report := Some (error_banner (Error ''rate limit reached'')),
             upd_loop_count := Some 2\<rparr>)) \<and>
   write_file env_disk_full [WriterInvoke acme_prompt] ''acme_battle_card.md''
     ''# Battle Card: Acme'' = Some (Error ''No space left on device'') \<and>
   writer_node env_disk_full [] acme_newsed =
     ([WriterInvoke acme_prompt, WriteFile ''acme_battle_card.md'' ''# Battle Card: Acme''],
      Inr (no_update\<lparr>upd_final_report := Some (error_banner (Error ''No space left on device'')),
             upd_loop_count := Some 2\<rparr>)) \<and>
   write_file env_sidecar_fails
     [WriterInvoke acme_prompt, WriteFile ''acme_battle_card.md'' ''# Battle Card: Acme'']
     ''acme_data.json'' sidecar_text = Some (Error ''No space left on device'') \<and>
   writer_node env_sidecar_fails [] acme_newsed =
     (writer_events,
      Inr (no_update\<lparr>upd_final_report := Some (error_banner (Error ''No space left on device'')),
             upd_loop_count := Some 2\<rparr>)) \<and>
   model_writer_invoke env_ok [] acme_prompt = Inr ''# Battle Card: Acme'' \<and>
   writer_node env_ok [] acme_newsed = (writer_events, Inr acme_writer_update) \<and>
   error_banner (Error ''rate limit reached'') =
     ''# Error Generating Battle Card\<newline>\<newline>Error: rate limit reached''"
proof -
  note T = writer_contains_generation_errors[OF writer_prompt_ok, unfolded Let_def
      acme_newsed_fields]
  have a: "writer_node env_writer_down [] acme_newsed =
     ([WriterInvoke acme_prompt],
      Inr (no_update\<lparr>upd_final_report := Some (error_banner (Error ''rate limit reached'')),
             upd_loop_count := Some 2\<rparr>))"
    using T[of env_writer_down "[]" "Error ''rate limit reached''"]
    by (simp add: writer_variants file_stem_acme)
  have b: "writer_node env_disk_full [] acme_newsed =
     ([WriterInvoke acme_prompt, WriteFile ''acme_battle_card.md'' ''# Battle Card: Acme''],
      Inr (no_update\<lparr>upd_final_report := Some (error_banner (Error ''No space left on device'')),
             upd_loop_count := Some 2\<rparr>))"
    using T[of env_disk_full "[]" "Error ''No space left on device''" "''# Battle Card: Acme''"]
    by (simp add: writer_variants file_stem_acme)
  have c: "writer_node env_sidecar_fails [] acme_newsed =
     (writer_events,
      Inr (no_update\<lparr>upd_final_report := Some (error_banner (Error ''No space left on device'')),
             upd_loop_count := Some 2\<rparr>))"
    using T[of env_sidecar_fails "[]" "Error ''No space left on device''"
        "''# Battle Card: Acme''"]
    by (simp add: writer_variants writer_events_def file_stem_acme)
  have d: "writer_node env_ok [] acme_newsed = (writer_events, Inr acme_writer_update)"
    using T[of env_ok "[]" _ "''# Battle Card: Acme''"]
    by (simp add: env_ok_fields writer_events_def acme_writer_update_def file_stem_acme)
  show ?thesis
    using a b c d
    by (simp add: writer_prompt_ok writer_variants env_ok_fields error_banner_def)
qed

text \<open>
  Claim C6 as stated fails in two ways. On a state whose competitors are objects, joining
  them raises \<^verbatim>\<open>TypeError\<close> before the \<^verbatim>\<open>try\<close> and the stage raises. When the writer model
  answers the empty text, the stage succeeds with an empty \<open>final_report\<close>.
\<close>

theorem writer_never_raises_counterexample:
  "writer_prompt acme_competitor_objects =
     Inl (TypeError ''sequence item 0: expected str instance, dict found'') \<and>
   writer_node env_ok [] acme_competitor_objects =
     ([], Inl (TypeError ''sequence item 0: expected str instance, dict found'')) \<and>
   writer_node env_empty_card [] acme_newsed =
     ([WriterInvoke acme_prompt, WriteFile ''acme_battle_card.md'' [],
       WriteFile ''acme_data.json'' sidecar_text],
      Inr (no_update\<lparr>upd_final_report := Some [], upd_loop_count := Some 2\<rparr>))"
proof -
  have p: "writer_prompt acme_competitor_objects =
     Inl (TypeError ''sequence item 0: expected str instance, dict found'')"
    by (simp add: writer_prompt_def format_competitors_def py_str_join_def show_nat_0
        acme_competitor_objects_def)
  have e: "writer_node env_empty_card [] acme_newsed =
     ([WriterInvoke acme_prompt, WriteFile ''acme_battle_card.md'' [],
       WriteFile ''acme_data.json'' sidecar_text],
      Inr (no_update\<lparr>upd_final_report := Some [], upd_loop_count := Some 2\<rparr>))"
    by (simp add: writer_node_def writer_try_def writer_prompt_ok writer_variants
        acme_newsed_fields file_stem_acme)
  show ?thesis
    using p e by (simp add: writer_node_def)
qed

section \<open>Decoding the text of a value\<close>

text \<open>
  The decoder applied to the text the encoder writes for a value gives the value back, for
  every value in which no dictionary holds a key twice. The proof follows the encoder: the
  digits of a number, the escapes of a string, the white space between the items, and then
  the values by induction, with the text after a value beginning with a comma or a line
  feed.
\<close>

subsection \<open>Dictionaries from pairs\<close>

lemma dict_set_fresh: "k \<notin> set (map fst d) \<Longrightarrow> dict_set d k v = d @ [(k, v)]"
  by (induction d k v rule: dict_set.induct) auto

lemma foldl_dict_set:
  "distinct (map fst ps) \<Longrightarrow> set (map fst d) \<inter> set (map fst ps) = {} \<Longrightarrow>
   foldl (\<lambda>d kv. dict_set d (fst kv) (snd kv)) d ps = d @ ps"
proof (induction ps arbitrary: d)
  case Nil
  then show ?case by simp
next
  case (Cons p ps)
  have "dict_set d (fst p) (snd p) = d @ [p]"
    using Cons.prems(2) by (simp add: dict_set_fresh)
  moreover have "foldl (\<lambda>d kv. dict_set d (fst kv) (snd kv)) (d @ [p]) ps = (d @ [p]) @ ps"
    using Cons.prems by (intro Cons.IH) auto
  ultimately show ?case by simp
qed

lemma dict_of_pairs_distinct: "distinct (map fst ps) \<Longrightarrow> dict_of_pairs ps = ps"
  using foldl_dict_set[of ps "[]"] by (simp add: dict_of_pairs_def)

subsection \<open>Decimal digits\<close>

lemma char_of_digit: "(n::nat) < 10 \<Longrightarrow> (of_char (char_of (48 + n)) :: nat) = 48 + n"
  by simp

lemma is_digit_char_of: "(n::nat) < 10 \<Longrightarrow> is_digit (char_of (48 + n))"
  by (simp add: is_digit_def)

lemma show_nat_digits: "list_all is_digit (show_nat n)"
proof (induction n rule: show_nat.induct)
  case (1 n)
  show ?case
  proof (cases "n < 10")
    case True
    then show ?thesis by (subst show_nat.simps) (simp add: is_digit_char_of)
  next
    case False
    then show ?thesis
      using 1 by (subst show_nat.simps) (simp add: is_digit_char_of)
  qed
qed

lemma show_nat_nonempty: "show_nat n \<noteq> []"
  by (subst show_nat.simps) simp

lemma digits_value_append:
  "digits_value (ds @ [c]) = 10 * digits_value ds + (of_char c - 48)"
  by (simp add: digits_value_def)

lemma digits_value_show_nat: "digits_value (show_nat n) = n"
proof (induction n rule: show_nat.induct)
  case (1 n)
  show ?case
  proof (cases "n < 10")
    case True
    then show ?thesis by (subst show_nat.simps) (simp add: digits_value_def)
  next
    case False
    then have "digits_value (show_nat n) =
        10 * digits_value (show_nat (n div 10)) + (of_char (char_of (48 + n mod 10)) - 48)"
      by (subst show_nat.simps) (simp add: digits_value_append)
    also have "\<dots> = 10 * (n div 10) + n mod 10"
      using 1 False by simp
    finally show ?thesis by simp
  qed
qed

lemma hd_show_nat:
  "0 < n \<Longrightarrow> \<exists>k::nat. 1 \<le> k \<and> k < 10 \<and> hd (show_nat n) = char_of (48 + k)"
proof (induction n rule: show_nat.induct)
  case (1 n)
  show ?case
  proof (cases "n < 10")
    case True
    then show ?thesis using 1(2) by (subst show_nat.simps) (auto intro!: exI[of _ n])
  next
    case False
    then have "0 < n div 10" by simp
    then obtain k :: nat
      where "1 \<le> k \<and> k < 10 \<and> hd (show_nat (n div 10)) = char_of (48 + k)"
      using 1(1) False by blast
    then show ?thesis
      using False by (subst show_nat.simps) (auto simp: show_nat_nonempty)
  qed
qed

lemma follows_value_facts:
  assumes "follows_value rest"
  shows "\<not> starts_fraction rest" "dropWhile is_digit rest = rest" "takeWhile is_digit rest = []"
  using assms by (cases rest; auto simp: follows_value_def starts_fraction_def is_digit_def)+

lemma scan_digits_show_nat:
  assumes "follows_value rest"
  shows "scan_digits (show_nat n @ rest) = Some (n, rest)"
proof (cases "n = 0")
  case True
  then show ?thesis
    using follows_value_facts[OF assms] by (simp add: show_nat_0 scan_digits_def)
next
  case False
  then obtain k :: nat where k: "1 \<le> k" "k < 10" "hd (show_nat n) = char_of (48 + k)"
    using hd_show_nat[of n] by auto
  obtain d ds where s: "show_nat n = d # ds"
    using show_nat_nonempty[of n] by (cases "show_nat n") auto
  have d: "d = char_of (48 + k)" using k(3) s by simp
  have d0: "d \<noteq> CHR ''0''"
  proof
    assume "d = CHR ''0''"
    then have "(of_char d :: nat) = 48" by simp
    then show False using k by (simp add: d)
  qed
  have dd: "is_digit d" using k by (simp add: d is_digit_char_of)
  have all: "\<forall>x\<in>set (show_nat n). is_digit x"
    using show_nat_digits[of n] by (simp add: list_all_iff)
  have tw: "takeWhile is_digit (show_nat n @ rest) = show_nat n"
    using all follows_value_facts[OF assms] by (simp add: takeWhile_append2)
  have dw: "dropWhile is_digit (show_nat n @ rest) = rest"
    using all follows_value_facts[OF assms] by (simp add: dropWhile_append2)
  have "scan_digits ((d # ds) @ rest) = Some (digits_value (takeWhile is_digit ((d # ds) @ rest)),
      dropWhile is_digit ((d # ds) @ rest))"
    using d0 dd dw follows_value_facts(1)[OF assms] s
    by (simp add: scan_digits_def Let_def)
  then show ?thesis
    using tw dw s digits_value_show_nat[of n] by simp
qed

lemma scan_number_show_int:
  assumes "follows_value rest"
  shows "scan_number (show_int i @ rest) = Some (PInt i, rest)"
proof (cases "i < 0")
  case True
  then show ?thesis
    using scan_digits_show_nat[OF assms, of "nat (- i)"]
    by (simp add: show_int_def scan_number_def)
next
  case False
  obtain d ds where s: "show_nat (nat i) = d # ds"
    using show_nat_nonempty[of "nat i"] by (cases "show_nat (nat i)") auto
  have "is_digit d"
    using show_nat_digits[of "nat i"] s by simp
  then have "d \<noteq> CHR ''-''" by (auto simp: is_digit_def)
  then show ?thesis
    using False s scan_digits_show_nat[OF assms, of "nat i"]
    by (simp add: show_int_def scan_number_def)
qed

subsection \<open>Strings\<close>

lemma hex_val_hex_digit: "d < 16 \<Longrightarrow> hex_val (hex_digit d) = Some d"
  by (auto simp: hex_val_def hex_digit_def Let_def)

lemma hex_val_zero: "hex_val CHR ''0'' = Some 0"
  by (simp add: hex_val_def)

lemma hex4_escape:
  "n < 32 \<Longrightarrow> hex4 CHR ''0'' CHR ''0'' (hex_digit (n div 16)) (hex_digit (n mod 16)) = Some n"
  by (simp add: hex4_def hex_val_zero hex_val_hex_digit)

lemma scanstring_escape_char:
  "scanstring (escape_char c @ t) =
     (case scanstring t of None \<Rightarrow> None | Some (s, r) \<Rightarrow> Some (c # s, r))"
proof (cases "c = dquote \<or> c = backslash \<or> c = CHR 0x0A \<or> c = CHR 0x0D \<or> c = CHR 0x09
    \<or> c = CHR 0x08 \<or> c = CHR 0x0C")
  case True
  then show ?thesis
    by (auto simp: escape_char_def unescape_def dquote_def backslash_def split: option.splits)
next
  case False
  note plain = False
  show ?thesis
  proof (cases "(of_char c :: nat) < 32")
    case True
    have "char_of (of_char c :: nat) = c" by simp
    then show ?thesis
      using plain True hex4_escape[OF True]
      by (auto simp: escape_char_def dquote_def backslash_def split: option.splits)
  next
    case False
    then show ?thesis
      using plain
      by (auto simp: escape_char_def dquote_def backslash_def split: option.splits)
  qed
qed

lemma scanstring_escaped:
  "scanstring (concat (map escape_char s) @ dquote # rest) = Some (s, rest)"
proof (induction s)
  case Nil
  then show ?case by simp
next
  case (Cons c s)
  have "scanstring (escape_char c @ concat (map escape_char s) @ dquote # rest) = Some (c # s, rest)"
    by (simp only: scanstring_escape_char Cons.IH option.case prod.case)
  then show ?case by simp
qed

lemma scanstring_basestring:
  "encode_basestring s @ rest = dquote # t \<Longrightarrow> scanstring t = Some (s, rest)"
  using scanstring_escaped[of s rest] by (simp add: encode_basestring_def)

subsection \<open>White space\<close>

lemma skip_ws_Cons: "\<not> is_json_ws c \<Longrightarrow> skip_ws (c # s) = c # s"
  by (simp add: skip_ws_def)

lemma skip_ws_newline_indent: "skip_ws (newline_indent k @ s) = skip_ws s"
proof -
  have "\<forall>x\<in>set (newline_indent k). is_json_ws x"
    by (auto simp: newline_indent_def is_json_ws_def)
  then show ?thesis
    by (simp add: skip_ws_def dropWhile_append2)
qed

lemma skip_ws_blank: "skip_ws (CHR '' '' # s) = skip_ws s"
  by (simp add: skip_ws_def is_json_ws_def)

subsection \<open>The first character of a value\<close>

lemma show_int_head: "\<exists>c cs. show_int i = c # cs \<and> (c = CHR ''-'' \<or> is_digit c)"
proof (cases "i < 0")
  case True
  then show ?thesis by (simp add: show_int_def)
next
  case False
  obtain d ds where s: "show_nat (nat i) = d # ds"
    using show_nat_nonempty[of "nat i"] by (cases "show_nat (nat i)") auto
  have "is_digit d"
    using show_nat_digits[of "nat i"] s by simp
  then show ?thesis using False s by (simp add: show_int_def)
qed

lemma digit_not_special:
  assumes "c = CHR ''-'' \<or> is_digit c"
  shows "\<not> is_json_ws c" "c \<noteq> CHR '']''" "c \<noteq> CHR ''}''" "c \<noteq> CHR ''[''" "c \<noteq> CHR ''{''"
    "c \<noteq> dquote" "c \<noteq> CHR ''n''" "c \<noteq> CHR ''t''" "c \<noteq> CHR ''f''"
  using assms by (auto simp: is_digit_def is_json_ws_def dquote_def)

lemma encode_head:
  "\<exists>c cs. encode level v = c # cs \<and> \<not> is_json_ws c \<and> c \<noteq> CHR '']'' \<and> c \<noteq> CHR ''}''"
proof (cases v)
  case (PInt i)
  obtain c cs where "show_int i = c # cs" "c = CHR ''-'' \<or> is_digit c"
    using show_int_head[of i] by blast
  then show ?thesis
    using digit_not_special[of c] by (simp add: PInt)
qed (auto simp: is_json_ws_def encode_basestring_def dquote_def)

lemma skip_ws_encode: "skip_ws (encode level v @ rest) = encode level v @ rest"
  using encode_head[of level v] by (auto simp: skip_ws_Cons)

lemma scan_once_number:
  "c = CHR ''-'' \<or> is_digit c \<Longrightarrow> scan_once (Suc n) (c # cs) = scan_number (c # cs)"
  using digit_not_special[of c] by simp

subsection \<open>Items and members\<close>

lemma follows_value_simps:
  "follows_value []" "follows_value (CHR '','' # s)" "follows_value (newline_indent k @ s)"
  by (simp_all add: follows_value_def newline_indent_def)

lemma scan_items_encode:
  assumes "\<And>x rest n. x \<in> set xs \<Longrightarrow> follows_value rest \<Longrightarrow>
             length (encode (Suc level) x) \<le> n \<Longrightarrow>
             scan_once n (encode (Suc level) x @ rest) = Some (x, rest)"
    and "xs \<noteq> []"
    and "length (py_join (CHR '','' # newline_indent (Suc level)) (map (encode (Suc level)) xs)) + 2 \<le> n"
  shows "scan_items n (py_join (CHR '','' # newline_indent (Suc level)) (map (encode (Suc level)) xs)
           @ newline_indent level @ CHR '']'' # rest) = Some (xs, rest)"
  using assms
proof (induction xs arbitrary: n)
  case Nil
  then show ?case by simp
next
  case (Cons x xs)
  note ih = Cons.IH and vstep = Cons.prems(1) and len = Cons.prems(3)
  obtain k where n: "n = Suc k" using len by (cases n) auto
  show ?case
  proof (cases xs)
    assume e: "xs = []"
    have "scan_once k (encode (Suc level) x @ (newline_indent level @ CHR '']'' # rest))
        = Some (x, newline_indent level @ CHR '']'' # rest)"
      using len n e by (intro vstep) (simp_all add: follows_value_simps)
    then show ?thesis
      by (simp add: n e skip_ws_newline_indent skip_ws_Cons is_json_ws_def)
  next
    fix y ys
    assume e: "xs = y # ys"
    let ?t = "py_join (CHR '','' # newline_indent (Suc level)) (map (encode (Suc level)) xs)
           @ newline_indent level @ CHR '']'' # rest"
    have 1: "scan_once k (encode (Suc level) x @ (CHR '','' # newline_indent (Suc level) @ ?t))
        = Some (x, CHR '','' # newline_indent (Suc level) @ ?t)"
      using len n e by (intro vstep) (simp_all add: follows_value_simps)
    have 2: "scan_items k ?t = Some (xs, rest)"
    proof (rule ih)
      show "xs \<noteq> []" using e by simp
      show "length (py_join (CHR '','' # newline_indent (Suc level)) (map (encode (Suc level)) xs)) + 2 \<le> k"
        using len n e by simp
      show "\<And>x rest n. x \<in> set xs \<Longrightarrow> follows_value rest \<Longrightarrow>
             length (encode (Suc level) x) \<le> n \<Longrightarrow>
             scan_once n (encode (Suc level) x @ rest) = Some (x, rest)"
        using vstep by simp
    qed
    have "?t = encode (Suc level) y @ drop (length (encode (Suc level) y)) ?t"
      using e by (cases ys) simp_all
    then have 3: "skip_ws ?t = ?t"
      using skip_ws_encode[of "Suc level" y "drop (length (encode (Suc level) y)) ?t"] by simp
    have 4: "CHR '','' \<noteq> CHR '']''" by simp
    show ?thesis
      using 1 2 3 e
      by (simp add: n skip_ws_newline_indent skip_ws_Cons is_json_ws_def)
  qed
qed

lemma scan_member_key:
  "scan_members (Suc k) (encode_basestring key @ CHR '':'' # CHR '' '' # encode level v @ rest) =
     (case scan_once k (encode level v @ rest) of
        None \<Rightarrow> None
      | Some (v, r2) \<Rightarrow>
          (case skip_ws r2 of
             [] \<Rightarrow> None
           | e # r3 \<Rightarrow>
               if e = CHR ''}'' then Some ([(key, v)], r3)
               else if e = CHR '','' then
                 (case scan_members k (skip_ws r3) of
                    None \<Rightarrow> None
                  | Some (pairs, r4) \<Rightarrow> Some ((key, v) # pairs, r4))
               else None))"
proof -
  have "encode_basestring key @ CHR '':'' # CHR '' '' # encode level v @ rest =
      dquote # (concat (map escape_char key) @ dquote # (CHR '':'' # CHR '' '' # encode level v @ rest))"
    by (simp add: encode_basestring_def)
  then show ?thesis
    by (simp add: scanstring_escaped skip_ws_Cons is_json_ws_def skip_ws_blank skip_ws_encode)
qed

lemma skip_ws_basestring: "skip_ws (encode_basestring key @ s) = encode_basestring key @ s"
  by (simp add: encode_basestring_def skip_ws_Cons is_json_ws_def dquote_def)

lemma scan_members_encode:
  assumes "\<And>key x rest n. (key, x) \<in> set kvs \<Longrightarrow> follows_value rest \<Longrightarrow>
             length (encode (Suc level) x) \<le> n \<Longrightarrow>
             scan_once n (encode (Suc level) x @ rest) = Some (x, rest)"
    and "kvs \<noteq> []"
    and "length (py_join (CHR '','' # newline_indent (Suc level))
           (map (\<lambda>kv. encode_basestring (fst kv) @ CHR '':'' # CHR '' '' # encode (Suc level) (snd kv)) kvs))
         + 2 \<le> n"
  shows "scan_members n (py_join (CHR '','' # newline_indent (Suc level))
           (map (\<lambda>kv. encode_basestring (fst kv) @ CHR '':'' # CHR '' '' # encode (Suc level) (snd kv)) kvs)
           @ newline_indent level @ CHR ''}'' # rest) = Some (kvs, rest)"
  using assms
proof (induction kvs arbitrary: n)
  case Nil
  then show ?case by simp
next
  case (Cons kv kvs)
  note ih = Cons.IH and vstep = Cons.prems(1) and len = Cons.prems(3)
  obtain key x where kv: "kv = (key, x)" by (cases kv)
  obtain k where n: "n = Suc k" using len by (cases n) auto
  show ?case
  proof (cases kvs)
    assume e: "kvs = []"
    have "scan_once k (encode (Suc level) x @ (newline_indent level @ CHR ''}'' # rest))
        = Some (x, newline_indent level @ CHR ''}'' # rest)"
      using len n e kv by (intro vstep[of key]) (simp_all add: follows_value_simps)
    then show ?thesis
      using scan_member_key[of k key "Suc level" x "newline_indent level @ CHR ''}'' # rest"]
      by (simp add: n e kv skip_ws_newline_indent skip_ws_Cons is_json_ws_def)
  next
    fix kv1 kvs1
    assume e: "kvs = kv1 # kvs1"
    let ?t = "py_join (CHR '','' # newline_indent (Suc level))
           (map (\<lambda>kv. encode_basestring (fst kv) @ CHR '':'' # CHR '' '' # encode (Suc level) (snd kv)) kvs)
           @ newline_indent level @ CHR ''}'' # rest"
    have 1: "scan_once k (encode (Suc level) x @ (CHR '','' # newline_indent (Suc level) @ ?t))
        = Some (x, CHR '','' # newline_indent (Suc level) @ ?t)"
      using len n e kv by (intro vstep[of key]) (simp_all add: follows_value_simps)
    have 2: "scan_members k ?t = Some (kvs, rest)"
    proof (rule ih)
      show "kvs \<noteq> []" using e by simp
      show "length (py_join (CHR '','' # newline_indent (Suc level))
           (map (\<lambda>kv. encode_basestring (fst kv) @ CHR '':'' # CHR '' '' # encode (Suc level) (snd kv)) kvs))
         + 2 \<le> k"
        using len n e by simp
      show "\<And>key x rest n. (key, x) \<in> set kvs \<Longrightarrow> follows_value rest \<Longrightarrow>
             length (encode (Suc level) x) \<le> n \<Longrightarrow>
             scan_once n (encode (Suc level) x @ rest) = Some (x, rest)"
        using vstep by (meson list.set_intros(2))
    qed
    have "?t = encode_basestring (fst kv1) @ drop (length (encode_basestring (fst kv1))) ?t"
      using e by (cases kvs1) simp_all
    then have 3: "skip_ws ?t = ?t"
      using skip_ws_basestring[of "fst kv1" "drop (length (encode_basestring (fst kv1))) ?t"] by simp
    show ?thesis
      using 1 2 3 e
        scan_member_key[of k key "Suc level" x "CHR '','' # newline_indent (Suc level) @ ?t"]
      by (simp add: n kv skip_ws_newline_indent skip_ws_Cons is_json_ws_def)
  qed
qed

subsection \<open>Decoding an encoded value\<close>

lemma distinct_keys_items: "distinct_keys (PList xs) \<Longrightarrow> x \<in> set xs \<Longrightarrow> distinct_keys x"
  by (simp add: list_all_iff)

lemma distinct_keys_members:
  "distinct_keys (PDict kvs) \<Longrightarrow> (key, x) \<in> set kvs \<Longrightarrow> distinct_keys x"
  by (force simp: list_all_iff)

lemma scan_once_encode:
  "distinct_keys v \<Longrightarrow> follows_value rest \<Longrightarrow> length (encode level v) \<le> n \<Longrightarrow>
   scan_once n (encode level v @ rest) = Some (v, rest)"
proof (induction v arbitrary: level rest n)
  case PNone
  then obtain k where "n = Suc k" by (cases n) auto
  then show ?case by (simp add: dquote_def)
next
  case (PBool b)
  then obtain k where "n = Suc k" by (cases n) (auto split: if_splits)
  then show ?case by (simp add: dquote_def)
next
  case (PInt i)
  obtain c cs where s: "show_int i = c # cs" "c = CHR ''-'' \<or> is_digit c"
    using show_int_head[of i] by blast
  obtain k where n: "n = Suc k" using PInt.prems(3) s by (cases n) auto
  have "scan_once (Suc k) (c # (cs @ rest)) = scan_number (c # (cs @ rest))"
    using s(2) by (rule scan_once_number)
  then have "scan_once n (show_int i @ rest) = scan_number (show_int i @ rest)"
    by (simp add: n s(1))
  then show ?case
    using scan_number_show_int[OF PInt.prems(2), of i] by simp
next
  case (PStr s)
  obtain k where n: "n = Suc k" using PStr.prems(3) by (cases n) (auto simp: encode_basestring_def)
  have "encode_basestring s @ rest = dquote # (concat (map escape_char s) @ dquote # rest)"
    by (simp add: encode_basestring_def)
  then show ?case
    by (simp add: n scanstring_escaped)
next
  case (PList xs)
  show ?case
  proof (cases "xs = []")
    case True
    obtain k where n: "n = Suc k" using PList.prems(3) True by (cases n) auto
    show ?thesis
      by (simp add: True n dquote_def skip_ws_Cons is_json_ws_def)
  next
    case False
    let ?j = "py_join (CHR '','' # newline_indent (Suc level)) (map (encode (Suc level)) xs)"
    obtain k where n: "n = Suc k" using PList.prems(3) False by (cases n) auto
    have len: "length ?j + 2 \<le> k"
      using PList.prems(3) False by (simp add: n newline_indent_def)
    have items: "scan_items k (?j @ newline_indent level @ CHR '']'' # rest) = Some (xs, rest)"
    proof (rule scan_items_encode[OF _ False len])
      fix x rest1 m
      assume "x \<in> set xs" "follows_value rest1" "length (encode (Suc level) x) \<le> m"
      then show "scan_once m (encode (Suc level) x @ rest1) = Some (x, rest1)"
        using distinct_keys_items[OF PList.prems(1)] by (intro PList.IH) auto
    qed
    obtain x xs1 where xs: "xs = x # xs1" using False by (cases xs) auto
    have "?j = encode (Suc level) x @ drop (length (encode (Suc level) x)) ?j"
      using xs by (cases xs1) simp_all
    then obtain t where j: "?j = encode (Suc level) x @ t" ..
    obtain c cs where h: "encode (Suc level) x = c # cs" "\<not> is_json_ws c" "c \<noteq> CHR '']''"
      using encode_head[of "Suc level" x] by blast
    have sk: "skip_ws (?j @ newline_indent level @ CHR '']'' # rest)
        = c # cs @ t @ newline_indent level @ CHR '']'' # rest"
      using h by (simp add: j skip_ws_Cons)
    have "scan_once (Suc k) (CHR ''['' # newline_indent (Suc level) @ ?j @ newline_indent level @ CHR '']'' # rest)
        = Some (PList xs, rest)"
      using items h(3) unfolding j h(1)
      by (simp add: dquote_def skip_ws_newline_indent skip_ws_Cons h(2))
    then show ?thesis
      using False by (simp add: n)
  qed
next
  case (PDict kvs)
  show ?case
  proof (cases "kvs = []")
    case True
    obtain k where n: "n = Suc k" using PDict.prems(3) True by (cases n) auto
    show ?thesis
      by (simp add: True n dquote_def skip_ws_Cons is_json_ws_def)
  next
    case False
    let ?j = "py_join (CHR '','' # newline_indent (Suc level))
           (map (\<lambda>kv. encode_basestring (fst kv) @ CHR '':'' # CHR '' '' # encode (Suc level) (snd kv)) kvs)"
    obtain k where n: "n = Suc k" using PDict.prems(3) False by (cases n) auto
    have len: "length ?j + 2 \<le> k"
      using PDict.prems(3) False by (simp add: n newline_indent_def)
    have members: "scan_members k (?j @ newline_indent level @ CHR ''}'' # rest) = Some (kvs, rest)"
    proof (rule scan_members_encode[OF _ False len])
      fix key x rest1 m
      assume a: "(key, x) \<in> set kvs" "follows_value rest1" "length (encode (Suc level) x) \<le> m"
      show "scan_once m (encode (Suc level) x @ rest1) = Some (x, rest1)"
        using a distinct_keys_members[OF PDict.prems(1) a(1)]
        by (intro PDict.IH[OF a(1)]) auto
    qed
    obtain kv kvs1 where kvs: "kvs = kv # kvs1" using False by (cases kvs) auto
    have "?j = encode_basestring (fst kv) @ drop (length (encode_basestring (fst kv))) ?j"
      using kvs by (cases kvs1) simp_all
    then obtain t where j: "?j = dquote # t"
      by (simp add: encode_basestring_def)
    have dk: "dict_of_pairs kvs = kvs"
      using PDict.prems(1) by (simp add: dict_of_pairs_distinct)
    have "scan_once (Suc k) (CHR ''{'' # newline_indent (Suc level) @ ?j @ newline_indent level @ CHR ''}'' # rest)
        = Some (PDict kvs, rest)"
      using members unfolding j
      by (simp add: dquote_def skip_ws_newline_indent skip_ws_Cons is_json_ws_def dk)
    then show ?thesis
      using False by (simp add: n)
  qed
qed

lemma py_json_round_trip: "distinct_keys v \<Longrightarrow> py_json_loads (py_json_dump v) = Some v"
proof -
  assume "distinct_keys v"
  then have "scan_once (length (encode 0 v)) (encode 0 v @ []) = Some (v, [])"
    by (intro scan_once_encode) (simp_all add: follows_value_simps)
  moreover have "skip_ws (encode 0 v) = encode 0 v"
    using skip_ws_encode[of 0 v "[]"] by simp
  moreover have "skip_ws [] = []" by (simp add: skip_ws_def)
  ultimately show ?thesis
    by (simp add: py_json_loads_def py_json_dump_def)
qed

section \<open>The sidecar holds the six fields\<close>

text \<open>
  Claim C9. The Writer writes under the sidecar name the text of \<^verbatim>\<open>json.dump\<close> for the six
  entries of \<open>raw_data\<close>. With the encoder of the library for \<open>json_dump\<close>, and a state in which
  no dictionary holds a key twice, the decoder of the library applied to every text written
  under the sidecar name gives a dictionary whose six entries are the company name, site,
  description, competitors, pricing records and headlines of the final state.
\<close>

theorem sidecar_round_trip:
  assumes "writer_node env tr state = (tr', Inr u)"
    and "WriteFile (file_stem (company_name state) @ ''_data.json'') json_text
           \<in> set (drop (length tr) tr')"
    and "json_dump env = py_json_dump"
    and "distinct_keys (raw_data state)"
  shows "py_json_loads json_text =
     Some (PDict [(''company_name'', PStr (company_name (merge state u))),
                  (''website'', home_url (merge state u)),
                  (''description'', description (merge state u)),
                  (''competitors'', competitors (merge state u)),
                  (''pricing_info'', PList (pricing_info (merge state u))),
                  (''news_headlines'', news_headlines (merge state u))])"
proof -
  have "json_text = json_dump env (raw_data state)"
    using assms(1,2) by (rule writer_sidecar_text)
  then have "json_text = py_json_dump (raw_data state)"
    using assms(3) by simp
  then have "py_json_loads json_text = Some (raw_data state)"
    using assms(4) by (simp add: py_json_round_trip)
  then show ?thesis
    by (simp add: raw_data_def merge_writer_fields[OF assms(1)])
qed

text \<open>
  The sidecar of the run on Acme.
\<close>

theorem sidecar_round_trip_witness:
  "writer_node env_ok [] acme_newsed = (writer_events, Inr acme_writer_update) \<and>
   WriteFile (file_stem (company_name acme_newsed) @ ''_data.json'') sidecar_text
     \<in> set (drop (length ([] :: trace)) writer_events) \<and>
   json_dump env_ok = py_json_dump \<and>
   distinct_keys (raw_data acme_newsed) \<and>
   merge acme_newsed acme_writer_update = acme_final \<and>
   py_json_loads sidecar_text =
     Some (PDict [(''company_name'', PStr ''Acme''),
                  (''website'', PStr ''https://acme.test''),
                  (''description'', PStr ''Acme sells anvils.''),
                  (''competitors'', PList [PStr ''Apex'', PStr ''Zenith'']),
                  (''pricing_info'', PList [pricing_json]),
                  (''news_headlines'',
                   PList [PDict [(''title'', PStr ''Acme ships''), (''position'', PInt 1)]])])"
proof -
  have w: "writer_node env_ok [] acme_newsed = (writer_events, Inr acme_writer_update)"
    by (simp add: writer_node_def writer_try_def writer_prompt_ok env_ok_fields
        acme_newsed_fields file_stem_acme writer_events_def acme_writer_update_def no_update_def)
  have m: "WriteFile (file_stem (company_name acme_newsed) @ ''_data.json'') sidecar_text
     \<in> set (drop (length ([] :: trace)) writer_events)"
    by (simp add: writer_events_def acme_newsed_fields file_stem_acme)
  have d: "json_dump env_ok = py_json_dump"
    by (simp add: env_ok_def)
  have k: "distinct_keys (raw_data acme_newsed)"
    by (simp add: raw_data_def acme_newsed_def acme_priced_def acme_researched_def
        pricing_json_def)
  have f: "merge acme_newsed acme_writer_update = acme_final"
    by (rule merge_writer_ok)
  have "py_json_loads sidecar_text =
     Some (PDict [(''company_name'', PStr (company_name acme_final)),
                  (''website'', home_url acme_final),
                  (''description'', description acme_final),
                  (''competitors'', competitors acme_final),
                  (''pricing_info'', PList (pricing_info acme_final)),
                  (''news_headlines'', news_headlines acme_final)])"
    using sidecar_round_trip[OF w m d k] by (simp only: f)
  then have "py_json_loads sidecar_text =
     Some (PDict [(''company_name'', PStr ''Acme''),
                  (''website'', PStr ''https://acme.test''),
                  (''description'', PStr ''Acme sells anvils.''),
                  (''competitors'', PList [PStr ''Apex'', PStr ''Zenith'']),
                  (''pricing_info'', PList [pricing_json]),
                  (''news_headlines'',
                   PList [PDict [(''title'', PStr ''Acme ships''), (''position'', PInt 1)]])])"
    by (simp add: acme_final_def acme_newsed_def acme_priced_def acme_researched_def)
  with w m d k f show ?thesis by blast
qed

end
